theory Spec2Isabelle
  imports Main "HOL-Library.Word"
begin

unbundle bit_operations_syntax

section \<open>Data model of \<^verbatim>\<open>src/main.cpp\<close>\<close>

text \<open>
  The program is the device-selection and swapchain-negotiation part of a Vulkan
  bootstrap (\<^verbatim>\<open>HelloTriangleApplication\<close>). Vulkan scalars are 32-bit: \<^verbatim>\<open>uint32_t\<close>,
  \<^verbatim>\<open>VkBool32\<close>, flag masks and the C enums are all modelled as \<open>32 word\<close>, the enum
  constants with the values of the Vulkan headers. Handles are 64-bit values, with
  \<^verbatim>\<open>VK_NULL_HANDLE\<close> being 0.

  Queue-family indices are modelled as \<open>nat\<close>: the source counts them in an \<^verbatim>\<open>int i\<close>
  starting at 0 and stores them in \<^verbatim>\<open>std::optional<uint32_t>\<close>; an index is always below
  the number of families the driver reported, so neither the counter nor the conversion
  wraps.
\<close>

type_synonym uint32_t = "32 word"
type_synonym VkBool32 = "32 word"
type_synonym VkFlags = "32 word"
type_synonym VkResult = "32 word"
type_synonym VkFormat = "32 word"
type_synonym VkColorSpaceKHR = "32 word"
type_synonym VkPresentModeKHR = "32 word"
type_synonym VkSharingMode = "32 word"
type_synonym VkHandle = "64 word"

definition VK_NULL_HANDLE :: VkHandle where
  "VK_NULL_HANDLE = 0"

definition VK_SUCCESS :: VkResult where
  "VK_SUCCESS = 0"

definition VK_TRUE :: VkBool32 where
  "VK_TRUE = 1"

definition VK_QUEUE_GRAPHICS_BIT :: VkFlags where
  "VK_QUEUE_GRAPHICS_BIT = 0x00000001"

definition VK_FORMAT_B8G8R8A8_SRGB :: VkFormat where
  "VK_FORMAT_B8G8R8A8_SRGB = 50"

definition VK_COLOR_SPACE_SRGB_NONLINEAR_KHR :: VkColorSpaceKHR where
  "VK_COLOR_SPACE_SRGB_NONLINEAR_KHR = 0"

definition VK_PRESENT_MODE_MAILBOX_KHR :: VkPresentModeKHR where
  "VK_PRESENT_MODE_MAILBOX_KHR = 1"

definition VK_PRESENT_MODE_FIFO_KHR :: VkPresentModeKHR where
  "VK_PRESENT_MODE_FIFO_KHR = 2"

definition VK_SHARING_MODE_EXCLUSIVE :: VkSharingMode where
  "VK_SHARING_MODE_EXCLUSIVE = 0"

definition VK_SHARING_MODE_CONCURRENT :: VkSharingMode where
  "VK_SHARING_MODE_CONCURRENT = 1"

definition VK_IMAGE_USAGE_COLOR_ATTACHMENT_BIT :: VkFlags where
  "VK_IMAGE_USAGE_COLOR_ATTACHMENT_BIT = 0x00000010"

definition VK_COMPOSITE_ALPHA_OPAQUE_BIT_KHR :: VkFlags where
  "VK_COMPOSITE_ALPHA_OPAQUE_BIT_KHR = 0x00000001"

definition VK_KHR_SWAPCHAIN_EXTENSION_NAME :: string where
  "VK_KHR_SWAPCHAIN_EXTENSION_NAME = ''VK_KHR_swapchain''"

text \<open>The device extensions the application requires (line 23 of the source).\<close>

definition deviceExtensions :: "string list" where
  "deviceExtensions = [VK_KHR_SWAPCHAIN_EXTENSION_NAME]"

text \<open>
  What the source can raise: \<^verbatim>\<open>std::runtime_error\<close> with its message,
  \<^verbatim>\<open>std::bad_optional_access\<close> from \<^verbatim>\<open>optional::value()\<close>, and the two places whose
  behaviour C++ leaves undefined (reading element 0 of an empty vector, \<^verbatim>\<open>std::clamp\<close>
  with a lower bound above the upper bound), which the model reports instead of inventing
  a value.
\<close>

datatype error =
    runtime_error string
  | bad_optional_access
  | undefined_behaviour

record VkExtent2D =
  width :: uint32_t
  height :: uint32_t

record VkSurfaceCapabilitiesKHR =
  minImageCount :: uint32_t
  maxImageCount :: uint32_t
  currentExtent :: VkExtent2D
  minImageExtent :: VkExtent2D
  maxImageExtent :: VkExtent2D
  currentTransform :: VkFlags

record VkSurfaceFormatKHR =
  format :: VkFormat
  colorSpace :: VkColorSpaceKHR

record VkQueueFamilyProperties =
  queueFlags :: VkFlags
  queueCount :: uint32_t

record VkExtensionProperties =
  extensionName :: string
  specVersion :: uint32_t

record QueueFamilyIndices =
  graphicsFamily :: "nat option"
  presentFamily :: "nat option"

definition isComplete :: "QueueFamilyIndices \<Rightarrow> bool" where
  "isComplete indices \<longleftrightarrow> graphicsFamily indices \<noteq> None \<and> presentFamily indices \<noteq> None"

record SwapChainSupportDetails =
  capabilities :: VkSurfaceCapabilitiesKHR
  formats :: "VkSurfaceFormatKHR list"
  presentModes :: "VkPresentModeKHR list"

text \<open>
  The window, as far as the program reads it: \<^verbatim>\<open>glfwGetFramebufferSize\<close> yields two C
  \<^verbatim>\<open>int\<close>s.
\<close>

record GLFWwindow =
  framebufferWidth :: int
  framebufferHeight :: int

section \<open>Swapchain parameter selection\<close>

subsection \<open>\<^verbatim>\<open>chooseSwapSurfaceFormat\<close>\<close>

definition isPreferredFormat :: "VkSurfaceFormatKHR \<Rightarrow> bool" where
  "isPreferredFormat availableFormat \<longleftrightarrow>
     format availableFormat = VK_FORMAT_B8G8R8A8_SRGB \<and>
     colorSpace availableFormat = VK_COLOR_SPACE_SRGB_NONLINEAR_KHR"

text \<open>The range-for loop: \<open>Some\<close> is the \<^verbatim>\<open>return\<close> inside the loop.\<close>

fun chooseSwapSurfaceFormat_loop :: "VkSurfaceFormatKHR list \<Rightarrow> VkSurfaceFormatKHR option" where
  "chooseSwapSurfaceFormat_loop [] = None"
| "chooseSwapSurfaceFormat_loop (availableFormat # rest) =
     (if isPreferredFormat availableFormat then Some availableFormat
      else chooseSwapSurfaceFormat_loop rest)"

text \<open>After the loop the source returns \<^verbatim>\<open>availableFormats[0]\<close>, undefined on an empty vector.\<close>

definition chooseSwapSurfaceFormat :: "VkSurfaceFormatKHR list \<Rightarrow> error + VkSurfaceFormatKHR" where
  "chooseSwapSurfaceFormat availableFormats =
     (case chooseSwapSurfaceFormat_loop availableFormats of
        Some availableFormat \<Rightarrow> Inr availableFormat
      | None \<Rightarrow>
          (case availableFormats of
             [] \<Rightarrow> Inl undefined_behaviour
           | first # _ \<Rightarrow> Inr first))"

subsection \<open>\<^verbatim>\<open>chooseSwapPresentMode\<close>\<close>

fun chooseSwapPresentMode :: "VkPresentModeKHR list \<Rightarrow> VkPresentModeKHR" where
  "chooseSwapPresentMode [] = VK_PRESENT_MODE_FIFO_KHR"
| "chooseSwapPresentMode (availablePresentMode # rest) =
     (if availablePresentMode = VK_PRESENT_MODE_MAILBOX_KHR then availablePresentMode
      else chooseSwapPresentMode rest)"

subsection \<open>\<^verbatim>\<open>chooseSwapExtent\<close>\<close>

text \<open>\<^verbatim>\<open>std::numeric_limits<uint32_t>::max()\<close>\<close>

definition uint32_max :: uint32_t where
  "uint32_max = 0xFFFFFFFF"

text \<open>
  \<^verbatim>\<open>std::clamp(v, lo, hi)\<close>: \<open>lo\<close> if \<open>v < lo\<close>, \<open>hi\<close> if \<open>hi < v\<close>, else \<open>v\<close>;
  the behaviour is undefined when \<open>hi < lo\<close>.
\<close>

definition clamp :: "uint32_t \<Rightarrow> uint32_t \<Rightarrow> uint32_t \<Rightarrow> error + uint32_t" where
  "clamp v lo hi =
     (if hi < lo then Inl undefined_behaviour
      else if v < lo then Inr lo
      else if hi < v then Inr hi
      else Inr v)"

text \<open>\<^verbatim>\<open>static_cast<uint32_t>\<close> of an \<^verbatim>\<open>int\<close> reduces it modulo \<open>2 ^ 32\<close>.\<close>

definition chooseSwapExtent :: "GLFWwindow \<Rightarrow> VkSurfaceCapabilitiesKHR \<Rightarrow> error + VkExtent2D" where
  "chooseSwapExtent win caps =
     (if width (currentExtent caps) \<noteq> uint32_max then Inr (currentExtent caps)
      else
        let actualExtent = \<lparr>width = word_of_int (framebufferWidth win),
                            height = word_of_int (framebufferHeight win)\<rparr>
        in case clamp (width actualExtent) (width (minImageExtent caps))
                      (width (maxImageExtent caps)) of
             Inl e \<Rightarrow> Inl e
           | Inr w \<Rightarrow>
               (case clamp (height actualExtent) (height (minImageExtent caps))
                           (height (maxImageExtent caps)) of
                  Inl e \<Rightarrow> Inl e
                | Inr h \<Rightarrow> Inr (actualExtent\<lparr>width := w, height := h\<rparr>)))"

subsection \<open>Image count (lines 381 to 385 of \<^verbatim>\<open>createSwapChain\<close>)\<close>

definition createSwapChain_imageCount :: "VkSurfaceCapabilitiesKHR \<Rightarrow> uint32_t" where
  "createSwapChain_imageCount caps =
     (let imageCount = minImageCount caps + 1
      in if maxImageCount caps > 0 \<and> imageCount > maxImageCount caps
         then maxImageCount caps else imageCount)"

section \<open>The driver and the application state\<close>

text \<open>
  The driver is what the program queries and what it asks to create objects. Each query
  of the source is one field, named after the Vulkan entry point it stands for; a
  count-then-fill pair of calls is the list it fills. Creation calls are decided by the
  driver: \<open>vkCreateSwapchainKHR_outcome\<close> and \<open>vkCreateImageView_outcome\<close> give, for a
  creation request, the result code and the handle a successful call hands out.
  \<open>liveImageViews\<close> is the driver's mutable part that the claims are about: the image
  views created and not yet destroyed, in creation order.

  Fields of the two creation requests that would clash with other names carry the
  suffix \<open>_ci\<close>. The structure tag, the extension pointer and the flags of a request
  decide nothing and are left out; the component mapping and the subresource range of an
  image-view request are written as their fields.
\<close>

record VkSwapchainCreateInfoKHR =
  surface_ci :: VkHandle
  minImageCount_ci :: uint32_t
  imageFormat :: VkFormat
  imageColorSpace :: VkColorSpaceKHR
  imageExtent :: VkExtent2D
  imageArrayLayers :: uint32_t
  imageUsage :: VkFlags
  imageSharingMode :: VkSharingMode
  queueFamilyIndexCount :: uint32_t
  pQueueFamilyIndices :: "nat list option"
  preTransform :: VkFlags
  compositeAlpha :: VkFlags
  presentMode_ci :: VkPresentModeKHR
  clipped :: VkBool32
  oldSwapchain :: VkHandle

record VkImageViewCreateInfo =
  image_ci :: VkHandle
  viewType :: uint32_t
  format_ci :: VkFormat
  components_r :: uint32_t
  components_g :: uint32_t
  components_b :: uint32_t
  components_a :: uint32_t
  aspectMask :: VkFlags
  baseMipLevel :: uint32_t
  levelCount :: uint32_t
  baseArrayLayer :: uint32_t
  layerCount :: uint32_t

definition VK_IMAGE_VIEW_TYPE_2D :: uint32_t where
  "VK_IMAGE_VIEW_TYPE_2D = 1"

definition VK_COMPONENT_SWIZZLE_IDENTITY :: uint32_t where
  "VK_COMPONENT_SWIZZLE_IDENTITY = 0"

definition VK_IMAGE_ASPECT_COLOR_BIT :: VkFlags where
  "VK_IMAGE_ASPECT_COLOR_BIT = 0x00000001"

record Driver =
  vkEnumeratePhysicalDevices :: "VkHandle list"
  vkGetPhysicalDeviceQueueFamilyProperties :: "VkHandle \<Rightarrow> VkQueueFamilyProperties list"
  vkGetPhysicalDeviceSurfaceSupportKHR :: "VkHandle \<Rightarrow> nat \<Rightarrow> VkHandle \<Rightarrow> VkBool32"
  vkEnumerateDeviceExtensionProperties :: "VkHandle \<Rightarrow> VkExtensionProperties list"
  vkGetPhysicalDeviceSurfaceCapabilitiesKHR :: "VkHandle \<Rightarrow> VkHandle \<Rightarrow> VkSurfaceCapabilitiesKHR"
  vkGetPhysicalDeviceSurfaceFormatsKHR :: "VkHandle \<Rightarrow> VkHandle \<Rightarrow> VkSurfaceFormatKHR list"
  vkGetPhysicalDeviceSurfacePresentModesKHR :: "VkHandle \<Rightarrow> VkHandle \<Rightarrow> VkPresentModeKHR list"
  vkCreateSwapchainKHR_outcome :: "VkSwapchainCreateInfoKHR \<Rightarrow> VkResult \<times> VkHandle"
  vkGetSwapchainImagesKHR :: "VkHandle \<Rightarrow> VkHandle list"
  vkCreateImageView_outcome :: "VkImageViewCreateInfo \<Rightarrow> VkResult \<times> VkHandle"
  liveImageViews :: "VkHandle list"

text \<open>The members of \<^verbatim>\<open>HelloTriangleApplication\<close> that the modelled functions touch.\<close>

record HelloTriangleApplication =
  window :: GLFWwindow
  surface :: VkHandle
  physicalDevice :: VkHandle
  device :: VkHandle
  swapChain :: VkHandle
  swapChainImages :: "VkHandle list"
  swapChainImageFormat :: VkFormat
  swapChainExtent :: VkExtent2D
  swapChainImageViews :: "VkHandle list"

section \<open>Capability queries\<close>

subsection \<open>\<^verbatim>\<open>findQueueFamilies\<close>\<close>

text \<open>
  The loop over the families; \<open>support i\<close> is the \<^verbatim>\<open>presentSupport\<close> that
  \<^verbatim>\<open>vkGetPhysicalDeviceSurfaceSupportKHR(device, i, surface, ...)\<close> writes. Both assignments are
  unconditional on the previous value of the field.
\<close>

fun findQueueFamilies_loop ::
  "(nat \<Rightarrow> VkBool32) \<Rightarrow> VkQueueFamilyProperties list \<Rightarrow> nat \<Rightarrow> QueueFamilyIndices \<Rightarrow> QueueFamilyIndices"
where
  "findQueueFamilies_loop support [] i indices = indices"
| "findQueueFamilies_loop support (queueFamily # rest) i indices =
     (let indices1 = (if queueFlags queueFamily AND VK_QUEUE_GRAPHICS_BIT \<noteq> 0
                      then indices\<lparr>graphicsFamily := Some i\<rparr> else indices);
          presentSupport = support i;
          indices2 = (if presentSupport \<noteq> 0
                      then indices1\<lparr>presentFamily := Some i\<rparr> else indices1)
      in if isComplete indices2 then indices2
         else findQueueFamilies_loop support rest (i + 1) indices2)"

definition findQueueFamilies :: "Driver \<Rightarrow> HelloTriangleApplication \<Rightarrow> VkHandle \<Rightarrow> QueueFamilyIndices" where
  "findQueueFamilies drv app dev =
     findQueueFamilies_loop
       (\<lambda>i. vkGetPhysicalDeviceSurfaceSupportKHR drv dev i (surface app))
       (vkGetPhysicalDeviceQueueFamilyProperties drv dev) 0
       \<lparr>graphicsFamily = None, presentFamily = None\<rparr>"

subsection \<open>\<^verbatim>\<open>checkDeviceExtensionSupport\<close>\<close>

text \<open>
  A \<^verbatim>\<open>std::set<std::string>\<close> of the required names, from which the name of every
  available extension is erased.
\<close>

definition checkDeviceExtensionSupport :: "Driver \<Rightarrow> VkHandle \<Rightarrow> bool" where
  "checkDeviceExtensionSupport drv dev =
     (let availableExtensions = vkEnumerateDeviceExtensionProperties drv dev;
          requiredExtensions = set deviceExtensions;
          remaining = fold (\<lambda>extension required. required - {extensionName extension})
                        availableExtensions requiredExtensions
      in remaining = {})"

subsection \<open>\<^verbatim>\<open>querySwapChainSupport\<close>\<close>

definition querySwapChainSupport ::
  "Driver \<Rightarrow> HelloTriangleApplication \<Rightarrow> VkHandle \<Rightarrow> SwapChainSupportDetails"
where
  "querySwapChainSupport drv app dev =
     (let formatCount = length (vkGetPhysicalDeviceSurfaceFormatsKHR drv dev (surface app));
          presentModeCount = length (vkGetPhysicalDeviceSurfacePresentModesKHR drv dev (surface app))
      in \<lparr>capabilities = vkGetPhysicalDeviceSurfaceCapabilitiesKHR drv dev (surface app),
          formats = (if formatCount \<noteq> 0
                     then vkGetPhysicalDeviceSurfaceFormatsKHR drv dev (surface app) else []),
          presentModes = (if presentModeCount \<noteq> 0
                          then vkGetPhysicalDeviceSurfacePresentModesKHR drv dev (surface app)
                          else [])\<rparr>)"

section \<open>Device selection\<close>

subsection \<open>\<^verbatim>\<open>isDeviceSuitable\<close>\<close>

definition isDeviceSuitable :: "Driver \<Rightarrow> HelloTriangleApplication \<Rightarrow> VkHandle \<Rightarrow> bool" where
  "isDeviceSuitable drv app dev =
     (let indices = findQueueFamilies drv app dev;
          extensionsSupported = checkDeviceExtensionSupport drv dev;
          swapChainAdequate =
            (if extensionsSupported
             then (let swapChainSupport = querySwapChainSupport drv app dev
                   in formats swapChainSupport \<noteq> [] \<and> presentModes swapChainSupport \<noteq> [])
             else False)
      in isComplete indices \<and> extensionsSupported \<and> swapChainAdequate)"

subsection \<open>\<^verbatim>\<open>pickPhysicalDevice\<close>\<close>

text \<open>The loop assigns the member \<^verbatim>\<open>physicalDevice\<close> at the first suitable device and breaks.\<close>

fun pickPhysicalDevice_loop ::
  "Driver \<Rightarrow> HelloTriangleApplication \<Rightarrow> VkHandle list \<Rightarrow> HelloTriangleApplication"
where
  "pickPhysicalDevice_loop drv app [] = app"
| "pickPhysicalDevice_loop drv app (dev # rest) =
     (if isDeviceSuitable drv app dev then app\<lparr>physicalDevice := dev\<rparr>
      else pickPhysicalDevice_loop drv app rest)"

definition pickPhysicalDevice :: "Driver \<Rightarrow> HelloTriangleApplication \<Rightarrow> error + HelloTriangleApplication" where
  "pickPhysicalDevice drv app =
     (let devices = vkEnumeratePhysicalDevices drv;
          deviceCount = length devices
      in if deviceCount = 0
         then Inl (runtime_error ''failed to find GPUs with Vulkan support!'')
         else let app' = pickPhysicalDevice_loop drv app devices
              in if physicalDevice app' = VK_NULL_HANDLE
                 then Inl (runtime_error ''failed to find a suitable GPU!'')
                 else Inr app')"

section \<open>Swapchain creation\<close>

subsection \<open>Sharing mode (lines 402 to 415 of \<^verbatim>\<open>createSwapChain\<close>)\<close>

text \<open>
  Line 402 reads both indices with \<^verbatim>\<open>value()\<close>, which throws on an empty optional, before
  the comparison of the two optionals. A request that was zero-initialised keeps a null
  \<open>pQueueFamilyIndices\<close> and a count of 0 in the exclusive branch.
\<close>

definition createSwapChain_sharing ::
  "QueueFamilyIndices \<Rightarrow> VkSwapchainCreateInfoKHR \<Rightarrow> error + VkSwapchainCreateInfoKHR"
where
  "createSwapChain_sharing indices createInfo =
     (case graphicsFamily indices of
        None \<Rightarrow> Inl bad_optional_access
      | Some g \<Rightarrow>
          (case presentFamily indices of
             None \<Rightarrow> Inl bad_optional_access
           | Some p \<Rightarrow>
               (let queueFamilyIndices = [g, p]
                in if graphicsFamily indices \<noteq> presentFamily indices
                   then Inr (createInfo\<lparr>imageSharingMode := VK_SHARING_MODE_CONCURRENT,
                                         queueFamilyIndexCount := 2,
                                         pQueueFamilyIndices := Some queueFamilyIndices\<rparr>)
                   else Inr (createInfo\<lparr>imageSharingMode := VK_SHARING_MODE_EXCLUSIVE\<rparr>))))"

subsection \<open>The creation request (lines 373 to 424) and \<^verbatim>\<open>createSwapChain\<close>\<close>

text \<open>\<^verbatim>\<open>VkSwapchainCreateInfoKHR createInfo{}\<close>: every field zero.\<close>

definition zero_VkSwapchainCreateInfoKHR :: VkSwapchainCreateInfoKHR where
  "zero_VkSwapchainCreateInfoKHR =
     \<lparr>surface_ci = VK_NULL_HANDLE, minImageCount_ci = 0, imageFormat = 0, imageColorSpace = 0,
      imageExtent = \<lparr>width = 0, height = 0\<rparr>, imageArrayLayers = 0, imageUsage = 0,
      imageSharingMode = 0, queueFamilyIndexCount = 0, pQueueFamilyIndices = None,
      preTransform = 0, compositeAlpha = 0, presentMode_ci = 0, clipped = 0,
      oldSwapchain = VK_NULL_HANDLE\<rparr>"

definition createSwapChain_createInfo ::
  "Driver \<Rightarrow> HelloTriangleApplication \<Rightarrow> error + VkSwapchainCreateInfoKHR"
where
  "createSwapChain_createInfo drv app =
     (let swapChainSupport = querySwapChainSupport drv app (physicalDevice app)
      in case chooseSwapSurfaceFormat (formats swapChainSupport) of
           Inl e \<Rightarrow> Inl e
         | Inr surfaceFormat \<Rightarrow>
             (let presentMode = chooseSwapPresentMode (presentModes swapChainSupport)
              in case chooseSwapExtent (window app) (capabilities swapChainSupport) of
                   Inl e \<Rightarrow> Inl e
                 | Inr extent \<Rightarrow>
                     (let imageCount = createSwapChain_imageCount (capabilities swapChainSupport);
                          createInfo = zero_VkSwapchainCreateInfoKHR
                            \<lparr>surface_ci := surface app,
                             minImageCount_ci := imageCount,
                             imageFormat := format surfaceFormat,
                             imageColorSpace := colorSpace surfaceFormat,
                             imageExtent := extent,
                             imageArrayLayers := 1,
                             imageUsage := VK_IMAGE_USAGE_COLOR_ATTACHMENT_BIT\<rparr>;
                          indices = findQueueFamilies drv app (physicalDevice app)
                      in case createSwapChain_sharing indices createInfo of
                           Inl e \<Rightarrow> Inl e
                         | Inr createInfo' \<Rightarrow>
                             Inr (createInfo'
                               \<lparr>preTransform := currentTransform (capabilities swapChainSupport),
                                compositeAlpha := VK_COMPOSITE_ALPHA_OPAQUE_BIT_KHR,
                                presentMode_ci := presentMode,
                                clipped := VK_TRUE,
                                oldSwapchain := VK_NULL_HANDLE\<rparr>))))"

definition createSwapChain :: "Driver \<Rightarrow> HelloTriangleApplication \<Rightarrow> error + HelloTriangleApplication" where
  "createSwapChain drv app =
     (case createSwapChain_createInfo drv app of
        Inl e \<Rightarrow> Inl e
      | Inr createInfo \<Rightarrow>
          (case vkCreateSwapchainKHR_outcome drv createInfo of
             (result, newSwapChain) \<Rightarrow>
               if result \<noteq> VK_SUCCESS
               then Inl (runtime_error ''failed to create swap chain!'')
               else Inr (app\<lparr>swapChain := newSwapChain,
                              swapChainImages := vkGetSwapchainImagesKHR drv newSwapChain,
                              swapChainImageFormat := imageFormat createInfo,
                              swapChainExtent := imageExtent createInfo\<rparr>)))"

section \<open>Image views\<close>

text \<open>
  \<^verbatim>\<open>vkCreateImageView\<close>: on success the driver hands out a view, which from then on is
  live; on failure nothing is created and the output slot is not written.
\<close>

definition vkCreateImageView ::
  "Driver \<Rightarrow> VkImageViewCreateInfo \<Rightarrow> VkResult \<times> VkHandle option \<times> Driver"
where
  "vkCreateImageView drv createInfo =
     (case vkCreateImageView_outcome drv createInfo of
        (result, view) \<Rightarrow>
          if result = VK_SUCCESS
          then (result, Some view, drv\<lparr>liveImageViews := liveImageViews drv @ [view]\<rparr>)
          else (result, None, drv))"

text \<open>\<^verbatim>\<open>vkDestroyImageView\<close>, which only \<^verbatim>\<open>cleanup\<close> calls.\<close>

definition vkDestroyImageView :: "Driver \<Rightarrow> VkHandle \<Rightarrow> Driver" where
  "vkDestroyImageView drv view = drv\<lparr>liveImageViews := removeAll view (liveImageViews drv)\<rparr>"

text \<open>\<^verbatim>\<open>std::vector::resize\<close>: new elements are value-initialised, here null handles.\<close>

definition resize :: "nat \<Rightarrow> VkHandle list \<Rightarrow> VkHandle list" where
  "resize n xs = take n xs @ replicate (n - length xs) VK_NULL_HANDLE"

definition imageViewCreateInfo :: "VkHandle \<Rightarrow> VkFormat \<Rightarrow> VkImageViewCreateInfo" where
  "imageViewCreateInfo img fmt =
     \<lparr>image_ci = img, viewType = VK_IMAGE_VIEW_TYPE_2D, format_ci = fmt,
      components_r = VK_COMPONENT_SWIZZLE_IDENTITY, components_g = VK_COMPONENT_SWIZZLE_IDENTITY,
      components_b = VK_COMPONENT_SWIZZLE_IDENTITY, components_a = VK_COMPONENT_SWIZZLE_IDENTITY,
      aspectMask = VK_IMAGE_ASPECT_COLOR_BIT, baseMipLevel = 0, levelCount = 1,
      baseArrayLayer = 0, layerCount = 1\<rparr>"

text \<open>
  The loop of \<^verbatim>\<open>createImageViews\<close> from position \<open>i\<close> on, over the images not yet
  visited. A \<^verbatim>\<open>throw\<close> leaves the loop at once; the result carries the driver and the
  application as they are at that moment.
\<close>

fun createImageViews_loop ::
  "VkHandle list \<Rightarrow> nat \<Rightarrow> Driver \<Rightarrow> HelloTriangleApplication \<Rightarrow>
     (error + unit) \<times> Driver \<times> HelloTriangleApplication"
where
  "createImageViews_loop [] i drv app = (Inr (), drv, app)"
| "createImageViews_loop (img # rest) i drv app =
     (let createInfo = imageViewCreateInfo img (swapChainImageFormat app)
      in case vkCreateImageView drv createInfo of
           (result, written, drv') \<Rightarrow>
             (let app' = (case written of
                            None \<Rightarrow> app
                          | Some view \<Rightarrow>
                              app\<lparr>swapChainImageViews := (swapChainImageViews app)[i := view]\<rparr>)
              in if result \<noteq> VK_SUCCESS
                 then (Inl (runtime_error ''failed to create image views!''), drv', app')
                 else createImageViews_loop rest (i + 1) drv' app'))"

definition createImageViews ::
  "Driver \<Rightarrow> HelloTriangleApplication \<Rightarrow> (error + unit) \<times> Driver \<times> HelloTriangleApplication"
where
  "createImageViews drv app =
     (let app1 = app\<lparr>swapChainImageViews :=
                       resize (length (swapChainImages app)) (swapChainImageViews app)\<rparr>
      in createImageViews_loop (swapChainImages app1) 0 drv app1)"

section \<open>A concrete driver and application\<close>

text \<open>
  One machine on which the theorems below are instantiated. Device 1 has a single
  graphics family and cannot present to the surface. Device 2 has the families
  graphics, graphics with compute, and transfer; only the third can present. Both report
  the swapchain extension. The surface leaves the extent to the application, the window
  framebuffer is 10000 by 50, and the driver refuses the image view of image 35.
\<close>

definition example_driver :: Driver where
  "example_driver =
     \<lparr>vkEnumeratePhysicalDevices = [1, 2],
      vkGetPhysicalDeviceQueueFamilyProperties =
        (\<lambda>dev. if dev = 1 then [\<lparr>queueFlags = 1, queueCount = 1\<rparr>]
               else [\<lparr>queueFlags = 1, queueCount = 1\<rparr>, \<lparr>queueFlags = 3, queueCount = 4\<rparr>,
                     \<lparr>queueFlags = 4, queueCount = 1\<rparr>]),
      vkGetPhysicalDeviceSurfaceSupportKHR =
        (\<lambda>dev i surf. if dev = 2 \<and> i = 2 then 1 else 0),
      vkEnumerateDeviceExtensionProperties =
        (\<lambda>dev. [\<lparr>extensionName = ''VK_KHR_maintenance1'', specVersion = 2\<rparr>,
                \<lparr>extensionName = ''VK_KHR_swapchain'', specVersion = 70\<rparr>]),
      vkGetPhysicalDeviceSurfaceCapabilitiesKHR =
        (\<lambda>dev surf. \<lparr>minImageCount = 2, maxImageCount = 0,
                      currentExtent = \<lparr>width = 0xFFFFFFFF, height = 0xFFFFFFFF\<rparr>,
                      minImageExtent = \<lparr>width = 64, height = 64\<rparr>,
                      maxImageExtent = \<lparr>width = 4096, height = 4096\<rparr>,
                      currentTransform = 1\<rparr>),
      vkGetPhysicalDeviceSurfaceFormatsKHR =
        (\<lambda>dev surf. [\<lparr>format = 37, colorSpace = 0\<rparr>, \<lparr>format = 50, colorSpace = 0\<rparr>]),
      vkGetPhysicalDeviceSurfacePresentModesKHR = (\<lambda>dev surf. [2, 1]),
      vkCreateSwapchainKHR_outcome = (\<lambda>createInfo. (0, 16)),
      vkGetSwapchainImagesKHR = (\<lambda>sc. [33, 34, 35]),
      vkCreateImageView_outcome =
        (\<lambda>createInfo. if image_ci createInfo = 35 then (- 1, 0)
                      else (0, image_ci createInfo + 32)),
      liveImageViews = []\<rparr>"

definition example_app :: HelloTriangleApplication where
  "example_app =
     \<lparr>window = \<lparr>framebufferWidth = 10000, framebufferHeight = 50\<rparr>,
      surface = 7, physicalDevice = VK_NULL_HANDLE, device = 0, swapChain = 0,
      swapChainImages = [], swapChainImageFormat = 0,
      swapChainExtent = \<lparr>width = 0, height = 0\<rparr>, swapChainImageViews = []\<rparr>"

text \<open>The test of line 620 on one family.\<close>

abbreviation graphicsCapable :: "VkQueueFamilyProperties \<Rightarrow> bool" where
  "graphicsCapable queueFamily \<equiv> queueFlags queueFamily AND VK_QUEUE_GRAPHICS_BIT \<noteq> 0"

section \<open>Properties of the selection functions\<close>

subsection \<open>Surface format\<close>

lemma chooseSwapSurfaceFormat_loop_Some:
  "chooseSwapSurfaceFormat_loop fs = Some f \<Longrightarrow> f \<in> set fs \<and> isPreferredFormat f"
  by (induction fs) (auto split: if_splits)

lemma chooseSwapSurfaceFormat_loop_None:
  "chooseSwapSurfaceFormat_loop fs = None \<longleftrightarrow> (\<forall>f \<in> set fs. \<not> isPreferredFormat f)"
  by (induction fs) auto

lemma isPreferredFormat_unique:
  "isPreferredFormat e \<Longrightarrow> isPreferredFormat f \<Longrightarrow> e = f"
  by (simp add: isPreferredFormat_def)

text \<open>
  C4. For every format list that contains an entry pairing the 8-bit BGRA sRGB format
  with the non-linear sRGB colour space, \<^verbatim>\<open>chooseSwapSurfaceFormat\<close> returns that entry,
  wherever it stands in the list; for every non-empty list without such an entry it
  returns the first entry.
\<close>

theorem chooseSwapSurfaceFormat_preferred_or_first:
  "(\<forall>e \<in> set availableFormats.
      format e = VK_FORMAT_B8G8R8A8_SRGB \<and> colorSpace e = VK_COLOR_SPACE_SRGB_NONLINEAR_KHR \<longrightarrow>
      chooseSwapSurfaceFormat availableFormats = Inr e) \<and>
   (availableFormats \<noteq> [] \<and>
    (\<forall>e \<in> set availableFormats.
       \<not> (format e = VK_FORMAT_B8G8R8A8_SRGB \<and> colorSpace e = VK_COLOR_SPACE_SRGB_NONLINEAR_KHR)) \<longrightarrow>
    chooseSwapSurfaceFormat availableFormats = Inr (hd availableFormats))"
proof (intro conjI ballI impI)
  fix e
  assume mem: "e \<in> set availableFormats"
    and pref: "format e = VK_FORMAT_B8G8R8A8_SRGB \<and> colorSpace e = VK_COLOR_SPACE_SRGB_NONLINEAR_KHR"
  then have e: "isPreferredFormat e"
    by (simp add: isPreferredFormat_def)
  with mem have "chooseSwapSurfaceFormat_loop availableFormats \<noteq> None"
    by (auto simp: chooseSwapSurfaceFormat_loop_None)
  then obtain f where f: "chooseSwapSurfaceFormat_loop availableFormats = Some f"
    by auto
  then have "isPreferredFormat f"
    by (simp add: chooseSwapSurfaceFormat_loop_Some)
  with e have "f = e"
    by (simp add: isPreferredFormat_unique)
  with f show "chooseSwapSurfaceFormat availableFormats = Inr e"
    by (simp add: chooseSwapSurfaceFormat_def)
next
  assume a: "availableFormats \<noteq> [] \<and>
    (\<forall>e \<in> set availableFormats.
       \<not> (format e = VK_FORMAT_B8G8R8A8_SRGB \<and> colorSpace e = VK_COLOR_SPACE_SRGB_NONLINEAR_KHR))"
  then have "chooseSwapSurfaceFormat_loop availableFormats = None"
    by (simp add: chooseSwapSurfaceFormat_loop_None isPreferredFormat_def)
  with a show "chooseSwapSurfaceFormat availableFormats = Inr (hd availableFormats)"
    by (cases availableFormats) (simp_all add: chooseSwapSurfaceFormat_def)
qed

text \<open>
  C4 at two lists: the preferred entry in third position is returned; without it the
  first entry is.
\<close>

theorem chooseSwapSurfaceFormat_preferred_or_first_witness:
  "chooseSwapSurfaceFormat
     [\<lparr>format = 37, colorSpace = 0\<rparr>, \<lparr>format = 50, colorSpace = 1\<rparr>,
      \<lparr>format = VK_FORMAT_B8G8R8A8_SRGB, colorSpace = VK_COLOR_SPACE_SRGB_NONLINEAR_KHR\<rparr>,
      \<lparr>format = 44, colorSpace = 0\<rparr>]
   = Inr \<lparr>format = VK_FORMAT_B8G8R8A8_SRGB, colorSpace = VK_COLOR_SPACE_SRGB_NONLINEAR_KHR\<rparr> \<and>
   chooseSwapSurfaceFormat
     [\<lparr>format = 37, colorSpace = 0\<rparr>, \<lparr>format = 50, colorSpace = 1\<rparr>, \<lparr>format = 44, colorSpace = 0\<rparr>]
   = Inr \<lparr>format = 37, colorSpace = 0\<rparr>"
  using chooseSwapSurfaceFormat_preferred_or_first
      [of "[\<lparr>format = 37, colorSpace = 0\<rparr>, \<lparr>format = 50, colorSpace = 1\<rparr>,
            \<lparr>format = VK_FORMAT_B8G8R8A8_SRGB, colorSpace = VK_COLOR_SPACE_SRGB_NONLINEAR_KHR\<rparr>,
            \<lparr>format = 44, colorSpace = 0\<rparr>]"]
    chooseSwapSurfaceFormat_preferred_or_first
      [of "[\<lparr>format = 37, colorSpace = 0\<rparr>, \<lparr>format = 50, colorSpace = 1\<rparr>,
            \<lparr>format = 44, colorSpace = 0\<rparr>]"]
  by (simp add: VK_FORMAT_B8G8R8A8_SRGB_def VK_COLOR_SPACE_SRGB_NONLINEAR_KHR_def)

subsection \<open>Present mode\<close>

text \<open>
  C5. Present-mode selection returns MAILBOX for every list that contains it, and FIFO
  for every list that does not.
\<close>

theorem chooseSwapPresentMode_mailbox_or_fifo:
  "(VK_PRESENT_MODE_MAILBOX_KHR \<in> set availablePresentModes \<longrightarrow>
      chooseSwapPresentMode availablePresentModes = VK_PRESENT_MODE_MAILBOX_KHR) \<and>
   (VK_PRESENT_MODE_MAILBOX_KHR \<notin> set availablePresentModes \<longrightarrow>
      chooseSwapPresentMode availablePresentModes = VK_PRESENT_MODE_FIFO_KHR)"
  by (induction availablePresentModes) auto

text \<open>C5 at a list with MAILBOX in third position and at a list without it.\<close>

theorem chooseSwapPresentMode_mailbox_or_fifo_witness:
  "VK_PRESENT_MODE_MAILBOX_KHR \<in> set [0, 2, VK_PRESENT_MODE_MAILBOX_KHR, 3] \<and>
   chooseSwapPresentMode [0, 2, VK_PRESENT_MODE_MAILBOX_KHR, 3] = VK_PRESENT_MODE_MAILBOX_KHR \<and>
   VK_PRESENT_MODE_MAILBOX_KHR \<notin> set [0, 2, 3] \<and>
   chooseSwapPresentMode [0, 2, 3] = VK_PRESENT_MODE_FIFO_KHR"
  using chooseSwapPresentMode_mailbox_or_fifo [of "[0, 2, VK_PRESENT_MODE_MAILBOX_KHR, 3]"]
    chooseSwapPresentMode_mailbox_or_fifo [of "[0, 2, 3]"]
  by (simp add: VK_PRESENT_MODE_MAILBOX_KHR_def)

subsection \<open>Extent\<close>

lemma clamp_ok:
  "lo \<le> hi \<Longrightarrow> clamp v lo hi = Inr (max lo (min hi v))"
  by (auto simp: clamp_def max_def min_def)

text \<open>
  C6. On every surface report whose current extent has the all-ones width only together
  with the all-ones height (a real size, or the sentinel \<open>(0xFFFFFFFF, 0xFFFFFFFF)\<close> that
  leaves the size to the application): when the report is the sentinel and the minimum
  image extent does not exceed the maximum on either axis, the result is the window
  framebuffer size, converted to \<^verbatim>\<open>uint32_t\<close>, clamped per axis into
  \<open>[minImageExtent, maxImageExtent]\<close>; when the report is not the sentinel, the result is
  the reported current extent verbatim. With the sentinel, bounds (64, 64) and
  (4096, 4096) and a framebuffer of (10000, 50), the result is (4096, 64).
\<close>

theorem chooseSwapExtent_sentinel_or_verbatim:
  assumes "width (currentExtent caps) = uint32_max \<longrightarrow> height (currentExtent caps) = uint32_max"
  shows
    "(currentExtent caps = \<lparr>width = uint32_max, height = uint32_max\<rparr> \<and>
      width (minImageExtent caps) \<le> width (maxImageExtent caps) \<and>
      height (minImageExtent caps) \<le> height (maxImageExtent caps) \<longrightarrow>
        chooseSwapExtent win caps =
          Inr \<lparr>width = max (width (minImageExtent caps))
                          (min (width (maxImageExtent caps)) (word_of_int (framebufferWidth win))),
               height = max (height (minImageExtent caps))
                          (min (height (maxImageExtent caps))
                             (word_of_int (framebufferHeight win)))\<rparr>) \<and>
     (currentExtent caps \<noteq> \<lparr>width = uint32_max, height = uint32_max\<rparr> \<longrightarrow>
        chooseSwapExtent win caps = Inr (currentExtent caps)) \<and>
     (currentExtent caps = \<lparr>width = uint32_max, height = uint32_max\<rparr> \<and>
      minImageExtent caps = \<lparr>width = 64, height = 64\<rparr> \<and>
      maxImageExtent caps = \<lparr>width = 4096, height = 4096\<rparr> \<and>
      framebufferWidth win = 10000 \<and> framebufferHeight win = 50 \<longrightarrow>
        chooseSwapExtent win caps = Inr \<lparr>width = 4096, height = 64\<rparr>)"
proof (intro conjI impI)
  assume a: "currentExtent caps = \<lparr>width = uint32_max, height = uint32_max\<rparr> \<and>
      width (minImageExtent caps) \<le> width (maxImageExtent caps) \<and>
      height (minImageExtent caps) \<le> height (maxImageExtent caps)"
  then show "chooseSwapExtent win caps =
          Inr \<lparr>width = max (width (minImageExtent caps))
                          (min (width (maxImageExtent caps)) (word_of_int (framebufferWidth win))),
               height = max (height (minImageExtent caps))
                          (min (height (maxImageExtent caps))
                             (word_of_int (framebufferHeight win)))\<rparr>"
    by (simp add: chooseSwapExtent_def Let_def clamp_ok)
next
  assume n: "currentExtent caps \<noteq> \<lparr>width = uint32_max, height = uint32_max\<rparr>"
  have "width (currentExtent caps) \<noteq> uint32_max"
  proof
    assume w: "width (currentExtent caps) = uint32_max"
    with assms have "height (currentExtent caps) = uint32_max" by simp
    with w have "currentExtent caps = \<lparr>width = uint32_max, height = uint32_max\<rparr>"
      by simp
    with n show False by simp
  qed
  then show "chooseSwapExtent win caps = Inr (currentExtent caps)"
    by (simp add: chooseSwapExtent_def)
next
  assume "currentExtent caps = \<lparr>width = uint32_max, height = uint32_max\<rparr> \<and>
      minImageExtent caps = \<lparr>width = 64, height = 64\<rparr> \<and>
      maxImageExtent caps = \<lparr>width = 4096, height = 4096\<rparr> \<and>
      framebufferWidth win = 10000 \<and> framebufferHeight win = 50"
  then show "chooseSwapExtent win caps = Inr \<lparr>width = 4096, height = 64\<rparr>"
    by (simp add: chooseSwapExtent_def Let_def clamp_ok)
qed

text \<open>
  C6 on the example surface, which reports the sentinel with bounds (64, 64) and
  (4096, 4096) under a framebuffer of 10000 by 50, and on the same surface reporting
  800 by 600.
\<close>

theorem chooseSwapExtent_sentinel_or_verbatim_witness:
  "currentExtent (vkGetPhysicalDeviceSurfaceCapabilitiesKHR example_driver 2 (surface example_app))
     = \<lparr>width = uint32_max, height = uint32_max\<rparr> \<and>
   chooseSwapExtent (window example_app)
     (vkGetPhysicalDeviceSurfaceCapabilitiesKHR example_driver 2 (surface example_app))
     = Inr \<lparr>width = 4096, height = 64\<rparr> \<and>
   currentExtent
     ((vkGetPhysicalDeviceSurfaceCapabilitiesKHR example_driver 2 (surface example_app))
        \<lparr>currentExtent := \<lparr>width = 800, height = 600\<rparr>\<rparr>)
     \<noteq> \<lparr>width = uint32_max, height = uint32_max\<rparr> \<and>
   chooseSwapExtent (window example_app)
     ((vkGetPhysicalDeviceSurfaceCapabilitiesKHR example_driver 2 (surface example_app))
        \<lparr>currentExtent := \<lparr>width = 800, height = 600\<rparr>\<rparr>)
     = Inr \<lparr>width = 800, height = 600\<rparr>"
proof -
  let ?caps = "vkGetPhysicalDeviceSurfaceCapabilitiesKHR example_driver 2 (surface example_app)"
  let ?fixed = "?caps\<lparr>currentExtent := \<lparr>width = 800, height = 600\<rparr>\<rparr>"
  have h1: "width (currentExtent ?caps) = uint32_max \<longrightarrow> height (currentExtent ?caps) = uint32_max"
    by (simp add: example_driver_def uint32_max_def)
  have h2: "width (currentExtent ?fixed) = uint32_max \<longrightarrow> height (currentExtent ?fixed) = uint32_max"
    by (simp add: uint32_max_def)
  have s: "currentExtent ?caps = \<lparr>width = uint32_max, height = uint32_max\<rparr>"
    and lo: "minImageExtent ?caps = \<lparr>width = 64, height = 64\<rparr>"
    and hi: "maxImageExtent ?caps = \<lparr>width = 4096, height = 4096\<rparr>"
    by (simp_all add: example_driver_def uint32_max_def)
  have fb: "framebufferWidth (window example_app) = 10000"
    "framebufferHeight (window example_app) = 50"
    by (simp_all add: example_app_def)
  have n: "currentExtent ?fixed \<noteq> \<lparr>width = uint32_max, height = uint32_max\<rparr>"
    by (simp add: uint32_max_def)
  have r1: "chooseSwapExtent (window example_app) ?caps = Inr \<lparr>width = 4096, height = 64\<rparr>"
    using chooseSwapExtent_sentinel_or_verbatim [OF h1, of "window example_app"] s lo hi fb
    by blast
  have "chooseSwapExtent (window example_app) ?fixed = Inr (currentExtent ?fixed)"
    using chooseSwapExtent_sentinel_or_verbatim [OF h2, of "window example_app"] n
    by blast
  then have r2: "chooseSwapExtent (window example_app) ?fixed = Inr \<lparr>width = 800, height = 600\<rparr>"
    by simp
  from s r1 n r2 show ?thesis
    by (intro conjI)
qed

text \<open>
  C10. The sentinel test reads only the width of the current extent. Whenever the width
  differs from the 32-bit maximum the current extent is returned verbatim, also when its
  height is the maximum; the framebuffer branch is taken exactly when the width is the
  maximum, and its result does not depend on the height of the current extent.
\<close>

theorem chooseSwapExtent_tests_width_only:
  "(width (currentExtent caps) \<noteq> uint32_max \<longrightarrow>
      chooseSwapExtent win caps = Inr (currentExtent caps)) \<and>
   (w \<noteq> uint32_max \<longrightarrow>
      chooseSwapExtent win (caps\<lparr>currentExtent := \<lparr>width = w, height = uint32_max\<rparr>\<rparr>) =
        Inr \<lparr>width = w, height = uint32_max\<rparr>) \<and>
   chooseSwapExtent win caps =
     (if width (currentExtent caps) = uint32_max
      then (case clamp (word_of_int (framebufferWidth win))
                   (width (minImageExtent caps)) (width (maxImageExtent caps)) of
              Inl e \<Rightarrow> Inl e
            | Inr cw \<Rightarrow>
                (case clamp (word_of_int (framebufferHeight win))
                        (height (minImageExtent caps)) (height (maxImageExtent caps)) of
                   Inl e \<Rightarrow> Inl e
                 | Inr ch \<Rightarrow> Inr \<lparr>width = cw, height = ch\<rparr>))
      else Inr (currentExtent caps)) \<and>
   chooseSwapExtent win (caps\<lparr>currentExtent := \<lparr>width = uint32_max, height = h\<rparr>\<rparr>) =
     chooseSwapExtent win (caps\<lparr>currentExtent := \<lparr>width = uint32_max, height = h'\<rparr>\<rparr>)"
  by (auto simp: chooseSwapExtent_def Let_def split: sum.splits)

text \<open>
  C10 on the example surface: a current extent of (800, 0xFFFFFFFF) comes back
  verbatim, and one of (0xFFFFFFFF, 600) gives the clamped framebuffer size.
\<close>

theorem chooseSwapExtent_tests_width_only_witness:
  "chooseSwapExtent (window example_app)
     ((vkGetPhysicalDeviceSurfaceCapabilitiesKHR example_driver 2 (surface example_app))
        \<lparr>currentExtent := \<lparr>width = 800, height = uint32_max\<rparr>\<rparr>)
     = Inr \<lparr>width = 800, height = uint32_max\<rparr> \<and>
   chooseSwapExtent (window example_app)
     ((vkGetPhysicalDeviceSurfaceCapabilitiesKHR example_driver 2 (surface example_app))
        \<lparr>currentExtent := \<lparr>width = uint32_max, height = 600\<rparr>\<rparr>)
     = Inr \<lparr>width = 4096, height = 64\<rparr>"
  using chooseSwapExtent_tests_width_only
      [of "(vkGetPhysicalDeviceSurfaceCapabilitiesKHR example_driver 2 (surface example_app))
             \<lparr>currentExtent := \<lparr>width = 800, height = uint32_max\<rparr>\<rparr>"
          "window example_app" 800]
    chooseSwapExtent_tests_width_only
      [of "(vkGetPhysicalDeviceSurfaceCapabilitiesKHR example_driver 2 (surface example_app))
             \<lparr>currentExtent := \<lparr>width = uint32_max, height = 600\<rparr>\<rparr>"
          "window example_app" 800]
  by (simp add: example_driver_def example_app_def uint32_max_def clamp_def)

section \<open>The example machine, evaluated\<close>

lemma example_findQueueFamilies_1:
  "findQueueFamilies example_driver example_app 1 = \<lparr>graphicsFamily = Some 0, presentFamily = None\<rparr>"
  by (simp add: findQueueFamilies_def example_driver_def example_app_def isComplete_def
      VK_QUEUE_GRAPHICS_BIT_def)

lemma example_findQueueFamilies_2:
  "findQueueFamilies example_driver app 2 = \<lparr>graphicsFamily = Some 1, presentFamily = Some 2\<rparr>"
  by (simp add: findQueueFamilies_def example_driver_def isComplete_def VK_QUEUE_GRAPHICS_BIT_def)

lemma example_isDeviceSuitable_1: "\<not> isDeviceSuitable example_driver example_app 1"
  by (simp add: isDeviceSuitable_def example_findQueueFamilies_1 isComplete_def Let_def)

lemma example_isDeviceSuitable_2: "isDeviceSuitable example_driver example_app 2"
  by (simp add: isDeviceSuitable_def example_findQueueFamilies_2 isComplete_def Let_def
      checkDeviceExtensionSupport_def deviceExtensions_def VK_KHR_SWAPCHAIN_EXTENSION_NAME_def
      querySwapChainSupport_def)
    (simp add: example_driver_def)

lemma example_createInfo:
  "createSwapChain_createInfo example_driver (example_app\<lparr>physicalDevice := 2\<rparr>) =
     Inr \<lparr>surface_ci = 7, minImageCount_ci = 3, imageFormat = 50, imageColorSpace = 0,
          imageExtent = \<lparr>width = 4096, height = 64\<rparr>, imageArrayLayers = 1, imageUsage = 16,
          imageSharingMode = 1, queueFamilyIndexCount = 2, pQueueFamilyIndices = Some [1, 2],
          preTransform = 1, compositeAlpha = 1, presentMode_ci = 1, clipped = 1,
          oldSwapchain = 0\<rparr>"
proof -
  have w: "window example_app = \<lparr>framebufferWidth = 10000, framebufferHeight = 50\<rparr>"
    and s: "surface example_app = 7"
    by (simp_all add: example_app_def)
  have q: "querySwapChainSupport example_driver app 2 =
      \<lparr>capabilities = \<lparr>minImageCount = 2, maxImageCount = 0,
                      currentExtent = \<lparr>width = 0xFFFFFFFF, height = 0xFFFFFFFF\<rparr>,
                      minImageExtent = \<lparr>width = 64, height = 64\<rparr>,
                      maxImageExtent = \<lparr>width = 4096, height = 4096\<rparr>,
                      currentTransform = 1\<rparr>,
       formats = [\<lparr>format = 37, colorSpace = 0\<rparr>, \<lparr>format = 50, colorSpace = 0\<rparr>],
       presentModes = [2, 1]\<rparr>"
    for app
    by (simp add: querySwapChainSupport_def example_driver_def)
  have f: "chooseSwapSurfaceFormat [\<lparr>format = 37, colorSpace = 0\<rparr>, \<lparr>format = 50, colorSpace = 0\<rparr>] =
      Inr \<lparr>format = 50, colorSpace = 0\<rparr>"
    by (simp add: chooseSwapSurfaceFormat_def isPreferredFormat_def VK_FORMAT_B8G8R8A8_SRGB_def
        VK_COLOR_SPACE_SRGB_NONLINEAR_KHR_def)
  have m: "chooseSwapPresentMode [2, 1] = 1"
    by (simp add: VK_PRESENT_MODE_MAILBOX_KHR_def)
  have e: "chooseSwapExtent \<lparr>framebufferWidth = 10000, framebufferHeight = 50\<rparr>
      \<lparr>minImageCount = 2, maxImageCount = 0,
       currentExtent = \<lparr>width = 0xFFFFFFFF, height = 0xFFFFFFFF\<rparr>,
       minImageExtent = \<lparr>width = 64, height = 64\<rparr>,
       maxImageExtent = \<lparr>width = 4096, height = 4096\<rparr>,
       currentTransform = 1\<rparr> = Inr \<lparr>width = 4096, height = 64\<rparr>"
    by (simp add: chooseSwapExtent_def clamp_def uint32_max_def)
  have c: "createSwapChain_imageCount
      \<lparr>minImageCount = 2, maxImageCount = 0,
       currentExtent = \<lparr>width = 0xFFFFFFFF, height = 0xFFFFFFFF\<rparr>,
       minImageExtent = \<lparr>width = 64, height = 64\<rparr>,
       maxImageExtent = \<lparr>width = 4096, height = 4096\<rparr>,
       currentTransform = 1\<rparr> = 3"
    by (simp add: createSwapChain_imageCount_def)
  show ?thesis
    by (simp add: createSwapChain_createInfo_def w s q f m e c example_findQueueFamilies_2
        createSwapChain_sharing_def zero_VkSwapchainCreateInfoKHR_def
        VK_NULL_HANDLE_def VK_TRUE_def VK_COMPOSITE_ALPHA_OPAQUE_BIT_KHR_def
        VK_IMAGE_USAGE_COLOR_ATTACHMENT_BIT_def VK_SHARING_MODE_CONCURRENT_def
        VK_PRESENT_MODE_MAILBOX_KHR_def)
qed

section \<open>Properties of the swapchain request\<close>

lemma createSwapChain_createInfo_minImageCount:
  assumes "createSwapChain_createInfo drv app = Inr ci"
  shows "minImageCount_ci ci =
    createSwapChain_imageCount
      (vkGetPhysicalDeviceSurfaceCapabilitiesKHR drv (physicalDevice app) (surface app))"
  using assms
  by (auto simp: createSwapChain_createInfo_def createSwapChain_sharing_def Let_def
      querySwapChainSupport_def split: sum.splits option.splits if_splits)

lemma createSwapChain_createInfo_sharing:
  assumes "createSwapChain_createInfo drv app = Inr ci"
    and "graphicsFamily (findQueueFamilies drv app (physicalDevice app)) = Some g"
    and "presentFamily (findQueueFamilies drv app (physicalDevice app)) = Some p"
  shows "imageSharingMode ci =
      (if g = p then VK_SHARING_MODE_EXCLUSIVE else VK_SHARING_MODE_CONCURRENT) \<and>
    queueFamilyIndexCount ci = (if g = p then 0 else 2) \<and>
    pQueueFamilyIndices ci = (if g = p then None else Some [g, p])"
  using assms
  by (auto simp: createSwapChain_createInfo_def createSwapChain_sharing_def Let_def
      zero_VkSwapchainCreateInfoKHR_def split: sum.splits option.splits if_splits)

text \<open>
  C7. The image count requested is \<open>minImageCount + 1\<close> (in \<^verbatim>\<open>uint32_t\<close> arithmetic),
  lowered to \<open>maxImageCount\<close> when that cap is nonzero and smaller, and left as it is
  when the cap is zero; 2 and 2 give 2, 2 and 0 give 3. It is the \<open>minImageCount\<close> field of
  the request that \<^verbatim>\<open>createSwapChain\<close> hands to the driver.
\<close>

theorem createSwapChain_imageCount_clamped:
  "createSwapChain_imageCount caps =
     (if maxImageCount caps = 0 then minImageCount caps + 1
      else min (minImageCount caps + 1) (maxImageCount caps)) \<and>
   (minImageCount caps = 2 \<and> maxImageCount caps = 2 \<longrightarrow> createSwapChain_imageCount caps = 2) \<and>
   (minImageCount caps = 2 \<and> maxImageCount caps = 0 \<longrightarrow> createSwapChain_imageCount caps = 3) \<and>
   (createSwapChain_createInfo drv app = Inr ci \<and>
    caps = vkGetPhysicalDeviceSurfaceCapabilitiesKHR drv (physicalDevice app) (surface app) \<longrightarrow>
      minImageCount_ci ci = createSwapChain_imageCount caps)"
  by (auto simp: createSwapChain_imageCount_def Let_def min_def word_greater_zero_iff
      createSwapChain_createInfo_minImageCount)

text \<open>
  C7 on the example surface (2 and 0), on the same surface with the cap set to 2, and
  on the request built for device 2.
\<close>

theorem createSwapChain_imageCount_clamped_witness:
  "createSwapChain_imageCount
     (vkGetPhysicalDeviceSurfaceCapabilitiesKHR example_driver 2 7) = 3 \<and>
   createSwapChain_imageCount
     ((vkGetPhysicalDeviceSurfaceCapabilitiesKHR example_driver 2 7)\<lparr>maxImageCount := 2\<rparr>) = 2 \<and>
   createSwapChain_createInfo example_driver (example_app\<lparr>physicalDevice := 2\<rparr>) =
     Inr \<lparr>surface_ci = 7, minImageCount_ci = 3, imageFormat = 50, imageColorSpace = 0,
          imageExtent = \<lparr>width = 4096, height = 64\<rparr>, imageArrayLayers = 1, imageUsage = 16,
          imageSharingMode = 1, queueFamilyIndexCount = 2, pQueueFamilyIndices = Some [1, 2],
          preTransform = 1, compositeAlpha = 1, presentMode_ci = 1, clipped = 1,
          oldSwapchain = 0\<rparr>"
  using createSwapChain_imageCount_clamped
      [of "vkGetPhysicalDeviceSurfaceCapabilitiesKHR example_driver 2 7"
          example_driver "example_app\<lparr>physicalDevice := 2\<rparr>"
          "\<lparr>surface_ci = 7, minImageCount_ci = 3, imageFormat = 50, imageColorSpace = 0,
            imageExtent = \<lparr>width = 4096, height = 64\<rparr>, imageArrayLayers = 1, imageUsage = 16,
            imageSharingMode = 1, queueFamilyIndexCount = 2, pQueueFamilyIndices = Some [1, 2],
            preTransform = 1, compositeAlpha = 1, presentMode_ci = 1, clipped = 1,
            oldSwapchain = 0\<rparr>"]
    createSwapChain_imageCount_clamped
      [of "(vkGetPhysicalDeviceSurfaceCapabilitiesKHR example_driver 2 7)\<lparr>maxImageCount := 2\<rparr>"
          example_driver "example_app\<lparr>physicalDevice := 2\<rparr>"
          "\<lparr>surface_ci = 7, minImageCount_ci = 3, imageFormat = 50, imageColorSpace = 0,
            imageExtent = \<lparr>width = 4096, height = 64\<rparr>, imageArrayLayers = 1, imageUsage = 16,
            imageSharingMode = 1, queueFamilyIndexCount = 2, pQueueFamilyIndices = Some [1, 2],
            preTransform = 1, compositeAlpha = 1, presentMode_ci = 1, clipped = 1,
            oldSwapchain = 0\<rparr>"]
    example_createInfo
  by (simp add: example_driver_def)

text \<open>
  C8. For complete indices, with graphics family \<open>g\<close> and present family \<open>p\<close>: if
  \<open>g\<close> and \<open>p\<close> differ the request gets concurrent sharing, a count of 2 and the two
  indices \<open>g\<close>, \<open>p\<close>; if they coincide it gets exclusive sharing and nothing else is
  changed, so that the request \<^verbatim>\<open>createSwapChain\<close> builds lists no index.
\<close>

theorem createSwapChain_sharing_mode:
  assumes "graphicsFamily indices = Some g"
    and "presentFamily indices = Some p"
  shows
    "(g \<noteq> p \<longrightarrow>
        createSwapChain_sharing indices createInfo =
          Inr (createInfo\<lparr>imageSharingMode := VK_SHARING_MODE_CONCURRENT,
                           queueFamilyIndexCount := 2,
                           pQueueFamilyIndices := Some [g, p]\<rparr>)) \<and>
     (g = p \<longrightarrow>
        createSwapChain_sharing indices createInfo =
          Inr (createInfo\<lparr>imageSharingMode := VK_SHARING_MODE_EXCLUSIVE\<rparr>)) \<and>
     (findQueueFamilies drv app (physicalDevice app) = indices \<and>
      createSwapChain_createInfo drv app = Inr ci \<longrightarrow>
        imageSharingMode ci =
          (if g = p then VK_SHARING_MODE_EXCLUSIVE else VK_SHARING_MODE_CONCURRENT) \<and>
        queueFamilyIndexCount ci = (if g = p then 0 else 2) \<and>
        pQueueFamilyIndices ci = (if g = p then None else Some [g, p]))"
proof (intro conjI impI)
  assume "g \<noteq> p"
  with assms show "createSwapChain_sharing indices createInfo =
      Inr (createInfo\<lparr>imageSharingMode := VK_SHARING_MODE_CONCURRENT,
                       queueFamilyIndexCount := 2,
                       pQueueFamilyIndices := Some [g, p]\<rparr>)"
    by (simp add: createSwapChain_sharing_def)
next
  assume "g = p"
  with assms show "createSwapChain_sharing indices createInfo =
      Inr (createInfo\<lparr>imageSharingMode := VK_SHARING_MODE_EXCLUSIVE\<rparr>)"
    by (simp add: createSwapChain_sharing_def)
next
  assume a: "findQueueFamilies drv app (physicalDevice app) = indices \<and>
      createSwapChain_createInfo drv app = Inr ci"
  with assms have "imageSharingMode ci =
      (if g = p then VK_SHARING_MODE_EXCLUSIVE else VK_SHARING_MODE_CONCURRENT) \<and>
    queueFamilyIndexCount ci = (if g = p then 0 else 2) \<and>
    pQueueFamilyIndices ci = (if g = p then None else Some [g, p])"
    using createSwapChain_createInfo_sharing [of drv app ci g p] by simp
  then show "imageSharingMode ci =
      (if g = p then VK_SHARING_MODE_EXCLUSIVE else VK_SHARING_MODE_CONCURRENT)"
    and "queueFamilyIndexCount ci = (if g = p then 0 else 2)"
    and "pQueueFamilyIndices ci = (if g = p then None else Some [g, p])"
    by simp_all
qed

text \<open>
  C8 at graphics family 0 with present family 0 (exclusive) and at graphics family 0
  with present family 1 (concurrent, indices 0 and 1), on a zero-initialised request.
\<close>

theorem createSwapChain_sharing_mode_witness:
  "createSwapChain_sharing \<lparr>graphicsFamily = Some 0, presentFamily = Some 0\<rparr>
     zero_VkSwapchainCreateInfoKHR =
     Inr (zero_VkSwapchainCreateInfoKHR\<lparr>imageSharingMode := VK_SHARING_MODE_EXCLUSIVE\<rparr>) \<and>
   createSwapChain_sharing \<lparr>graphicsFamily = Some 0, presentFamily = Some 1\<rparr>
     zero_VkSwapchainCreateInfoKHR =
     Inr (zero_VkSwapchainCreateInfoKHR\<lparr>imageSharingMode := VK_SHARING_MODE_CONCURRENT,
                                         queueFamilyIndexCount := 2,
                                         pQueueFamilyIndices := Some [0, 1]\<rparr>) \<and>
   findQueueFamilies example_driver (example_app\<lparr>physicalDevice := 2\<rparr>) 2 =
     \<lparr>graphicsFamily = Some 1, presentFamily = Some 2\<rparr> \<and>
   createSwapChain_createInfo example_driver (example_app\<lparr>physicalDevice := 2\<rparr>) =
     Inr \<lparr>surface_ci = 7, minImageCount_ci = 3, imageFormat = 50, imageColorSpace = 0,
          imageExtent = \<lparr>width = 4096, height = 64\<rparr>, imageArrayLayers = 1, imageUsage = 16,
          imageSharingMode = VK_SHARING_MODE_CONCURRENT, queueFamilyIndexCount = 2,
          pQueueFamilyIndices = Some [1, 2],
          preTransform = 1, compositeAlpha = 1, presentMode_ci = 1, clipped = 1,
          oldSwapchain = 0\<rparr>"
  using createSwapChain_sharing_mode
      [of "\<lparr>graphicsFamily = Some 0, presentFamily = Some 0\<rparr>" 0 0 zero_VkSwapchainCreateInfoKHR]
    createSwapChain_sharing_mode
      [of "\<lparr>graphicsFamily = Some 0, presentFamily = Some 1\<rparr>" 0 1 zero_VkSwapchainCreateInfoKHR]
    createSwapChain_sharing_mode
      [of "\<lparr>graphicsFamily = Some 1, presentFamily = Some 2\<rparr>" 1 2
          zero_VkSwapchainCreateInfoKHR example_driver
          "example_app\<lparr>physicalDevice := 2\<rparr>"]
    example_createInfo example_findQueueFamilies_2 [of "example_app\<lparr>physicalDevice := 2\<rparr>"]
  by (simp add: VK_SHARING_MODE_CONCURRENT_def)

section \<open>Properties of queue-family discovery\<close>

text \<open>
  The loop from position \<open>i\<close> on, entered with incomplete indices: it examines the first
  \<open>m\<close> of the remaining families, where \<open>m\<close> is the first count at which both roles are
  assigned (or all of them), and each role holds the last qualifying family among those
  \<open>m\<close>, or what it held before if there is none.
\<close>

lemma findQueueFamilies_loop_scan:
  "\<not> isComplete ind \<Longrightarrow>
   \<exists>m\<le>length qs.
     (\<forall>k<m. (graphicsFamily ind = None \<and> (\<forall>a<k. \<not> graphicsCapable (qs ! a))) \<or>
            (presentFamily ind = None \<and> (\<forall>b<k. support (i + b) = 0))) \<and>
     (m < length qs \<longrightarrow>
        (graphicsFamily ind \<noteq> None \<or> (\<exists>a<m. graphicsCapable (qs ! a))) \<and>
        (presentFamily ind \<noteq> None \<or> (\<exists>b<m. support (i + b) \<noteq> 0))) \<and>
     (\<forall>g. graphicsFamily (findQueueFamilies_loop support qs i ind) = Some g \<longleftrightarrow>
        (\<exists>a<m. g = i + a \<and> graphicsCapable (qs ! a) \<and>
            (\<forall>j<m. a < j \<longrightarrow> \<not> graphicsCapable (qs ! j))) \<or>
        (graphicsFamily ind = Some g \<and> (\<forall>a<m. \<not> graphicsCapable (qs ! a)))) \<and>
     (\<forall>p. presentFamily (findQueueFamilies_loop support qs i ind) = Some p \<longleftrightarrow>
        (\<exists>b<m. p = i + b \<and> support (i + b) \<noteq> 0 \<and> (\<forall>j<m. b < j \<longrightarrow> support (i + j) = 0)) \<or>
        (presentFamily ind = Some p \<and> (\<forall>b<m. support (i + b) = 0)))"
proof (induction qs arbitrary: i ind)
  case Nil
  then show ?case by simp
next
  case (Cons q qs)
  define ind1 where "ind1 = (if graphicsCapable q then ind\<lparr>graphicsFamily := Some i\<rparr> else ind)"
  define ind2 where "ind2 = (if support i \<noteq> 0 then ind1\<lparr>presentFamily := Some i\<rparr> else ind1)"
  have loop: "findQueueFamilies_loop support (q # qs) i ind =
      (if isComplete ind2 then ind2 else findQueueFamilies_loop support qs (Suc i) ind2)"
    by (simp add: ind1_def ind2_def Let_def)
  have g2: "graphicsFamily ind2 = (if graphicsCapable q then Some i else graphicsFamily ind)"
    by (simp add: ind1_def ind2_def)
  have p2: "presentFamily ind2 = (if support i \<noteq> 0 then Some i else presentFamily ind)"
    by (simp add: ind1_def ind2_def)
  show ?case
  proof (cases "isComplete ind2")
    case True
    show ?thesis
      apply (rule exI [of _ 1])
      using True Cons.prems
      apply (simp add: loop)
      apply (auto simp: ind1_def ind2_def isComplete_def split: if_splits)
      done
  next
    case False
    from Cons.IH [OF False, of "Suc i"] obtain m where m: "m \<le> length qs"
      and A: "\<forall>k<m. (graphicsFamily ind2 = None \<and> (\<forall>a<k. \<not> graphicsCapable (qs ! a))) \<or>
            (presentFamily ind2 = None \<and> (\<forall>b<k. support (Suc i + b) = 0))"
      and B: "m < length qs \<longrightarrow>
        (graphicsFamily ind2 \<noteq> None \<or> (\<exists>a<m. graphicsCapable (qs ! a))) \<and>
        (presentFamily ind2 \<noteq> None \<or> (\<exists>b<m. support (Suc i + b) \<noteq> 0))"
      and C: "\<forall>g. graphicsFamily (findQueueFamilies_loop support qs (Suc i) ind2) = Some g \<longleftrightarrow>
        (\<exists>a<m. g = Suc i + a \<and> graphicsCapable (qs ! a) \<and>
            (\<forall>j<m. a < j \<longrightarrow> \<not> graphicsCapable (qs ! j))) \<or>
        (graphicsFamily ind2 = Some g \<and> (\<forall>a<m. \<not> graphicsCapable (qs ! a)))"
      and D: "\<forall>p. presentFamily (findQueueFamilies_loop support qs (Suc i) ind2) = Some p \<longleftrightarrow>
        (\<exists>b<m. p = Suc i + b \<and> support (Suc i + b) \<noteq> 0 \<and>
            (\<forall>j<m. b < j \<longrightarrow> support (Suc i + j) = 0)) \<or>
        (presentFamily ind2 = Some p \<and> (\<forall>b<m. support (Suc i + b) = 0))"
      by blast
    have A': "\<forall>k<Suc m. (graphicsFamily ind = None \<and> (\<forall>a<k. \<not> graphicsCapable ((q # qs) ! a))) \<or>
            (presentFamily ind = None \<and> (\<forall>b<k. support (i + b) = 0))"
    proof (intro allI impI)
      fix k assume k: "k < Suc m"
      show "(graphicsFamily ind = None \<and> (\<forall>a<k. \<not> graphicsCapable ((q # qs) ! a))) \<or>
            (presentFamily ind = None \<and> (\<forall>b<k. support (i + b) = 0))"
      proof (cases k)
        case 0
        with Cons.prems show ?thesis by (auto simp: isComplete_def)
      next
        case (Suc k')
        with k have "k' < m" by simp
        with A have "(graphicsFamily ind2 = None \<and> (\<forall>a<k'. \<not> graphicsCapable (qs ! a))) \<or>
            (presentFamily ind2 = None \<and> (\<forall>b<k'. support (Suc i + b) = 0))" by blast
        then show ?thesis
          unfolding Suc g2 p2
          by (auto simp: All_less_Suc2 split: if_splits)
      qed
    qed
    have B': "Suc m < length (q # qs) \<longrightarrow>
        (graphicsFamily ind \<noteq> None \<or> (\<exists>a<Suc m. graphicsCapable ((q # qs) ! a))) \<and>
        (presentFamily ind \<noteq> None \<or> (\<exists>b<Suc m. support (i + b) \<noteq> 0))"
      using B unfolding g2 p2
      by (auto simp: Ex_less_Suc2 split: if_splits)
    have C': "\<forall>g. graphicsFamily (findQueueFamilies_loop support qs (Suc i) ind2) = Some g \<longleftrightarrow>
        (\<exists>a<Suc m. g = i + a \<and> graphicsCapable ((q # qs) ! a) \<and>
            (\<forall>j<Suc m. a < j \<longrightarrow> \<not> graphicsCapable ((q # qs) ! j))) \<or>
        (graphicsFamily ind = Some g \<and> (\<forall>a<Suc m. \<not> graphicsCapable ((q # qs) ! a)))"
    proof (intro allI)
      fix g
      have "graphicsFamily (findQueueFamilies_loop support qs (Suc i) ind2) = Some g \<longleftrightarrow>
        (\<exists>a<m. g = Suc i + a \<and> graphicsCapable (qs ! a) \<and>
            (\<forall>j<m. a < j \<longrightarrow> \<not> graphicsCapable (qs ! j))) \<or>
        (graphicsFamily ind2 = Some g \<and> (\<forall>a<m. \<not> graphicsCapable (qs ! a)))"
        using C by blast
      also have "\<dots> \<longleftrightarrow>
        (\<exists>a<Suc m. g = i + a \<and> graphicsCapable ((q # qs) ! a) \<and>
            (\<forall>j<Suc m. a < j \<longrightarrow> \<not> graphicsCapable ((q # qs) ! j))) \<or>
        (graphicsFamily ind = Some g \<and> (\<forall>a<Suc m. \<not> graphicsCapable ((q # qs) ! a)))"
        unfolding g2
        by (auto simp: Ex_less_Suc2 All_less_Suc2 split: if_splits)
      finally show "graphicsFamily (findQueueFamilies_loop support qs (Suc i) ind2) = Some g \<longleftrightarrow>
        (\<exists>a<Suc m. g = i + a \<and> graphicsCapable ((q # qs) ! a) \<and>
            (\<forall>j<Suc m. a < j \<longrightarrow> \<not> graphicsCapable ((q # qs) ! j))) \<or>
        (graphicsFamily ind = Some g \<and> (\<forall>a<Suc m. \<not> graphicsCapable ((q # qs) ! a)))" .
    qed
    have D': "\<forall>p. presentFamily (findQueueFamilies_loop support qs (Suc i) ind2) = Some p \<longleftrightarrow>
        (\<exists>b<Suc m. p = i + b \<and> support (i + b) \<noteq> 0 \<and>
            (\<forall>j<Suc m. b < j \<longrightarrow> support (i + j) = 0)) \<or>
        (presentFamily ind = Some p \<and> (\<forall>b<Suc m. support (i + b) = 0))"
    proof (intro allI)
      fix p
      have "presentFamily (findQueueFamilies_loop support qs (Suc i) ind2) = Some p \<longleftrightarrow>
        (\<exists>b<m. p = Suc i + b \<and> support (Suc i + b) \<noteq> 0 \<and>
            (\<forall>j<m. b < j \<longrightarrow> support (Suc i + j) = 0)) \<or>
        (presentFamily ind2 = Some p \<and> (\<forall>b<m. support (Suc i + b) = 0))"
        using D by blast
      also have "\<dots> \<longleftrightarrow>
        (\<exists>b<Suc m. p = i + b \<and> support (i + b) \<noteq> 0 \<and>
            (\<forall>j<Suc m. b < j \<longrightarrow> support (i + j) = 0)) \<or>
        (presentFamily ind = Some p \<and> (\<forall>b<Suc m. support (i + b) = 0))"
        unfolding p2
        by (auto simp: Ex_less_Suc2 All_less_Suc2 split: if_splits)
      finally show "presentFamily (findQueueFamilies_loop support qs (Suc i) ind2) = Some p \<longleftrightarrow>
        (\<exists>b<Suc m. p = i + b \<and> support (i + b) \<noteq> 0 \<and>
            (\<forall>j<Suc m. b < j \<longrightarrow> support (i + j) = 0)) \<or>
        (presentFamily ind = Some p \<and> (\<forall>b<Suc m. support (i + b) = 0))" .
    qed
    show ?thesis
      apply (rule exI [of _ "Suc m"])
      unfolding loop
      using False m A' B' C' D'
      apply simp
      done
  qed
qed

text \<open>
  C1, as amended. Families are scanned in ascending driver-reported order and the scan
  stops as soon as both roles are assigned: it covers the first \<open>m\<close> families, where no
  shorter prefix contains both a graphics-capable family and one that can present, and
  where the first \<open>m\<close> do unless the whole list was scanned. Every qualifying family that
  is scanned overwrites the role's index, so for each role the index returned is the
  \<^emph>\<open>largest\<close> qualifying index among the \<open>m\<close> families scanned (and the role is empty
  when none of them qualifies).
\<close>

theorem findQueueFamilies_last_match:
  "\<exists>m\<le>length (vkGetPhysicalDeviceQueueFamilyProperties drv dev).
     (\<forall>k<m. (\<forall>a<k. \<not> graphicsCapable (vkGetPhysicalDeviceQueueFamilyProperties drv dev ! a)) \<or>
            (\<forall>b<k. vkGetPhysicalDeviceSurfaceSupportKHR drv dev b (surface app) = 0)) \<and>
     (m < length (vkGetPhysicalDeviceQueueFamilyProperties drv dev) \<longrightarrow>
        (\<exists>a<m. graphicsCapable (vkGetPhysicalDeviceQueueFamilyProperties drv dev ! a)) \<and>
        (\<exists>b<m. vkGetPhysicalDeviceSurfaceSupportKHR drv dev b (surface app) \<noteq> 0)) \<and>
     (\<forall>g. graphicsFamily (findQueueFamilies drv app dev) = Some g \<longleftrightarrow>
        g < m \<and> graphicsCapable (vkGetPhysicalDeviceQueueFamilyProperties drv dev ! g) \<and>
        (\<forall>j<m. g < j \<longrightarrow>
           \<not> graphicsCapable (vkGetPhysicalDeviceQueueFamilyProperties drv dev ! j))) \<and>
     (\<forall>p. presentFamily (findQueueFamilies drv app dev) = Some p \<longleftrightarrow>
        p < m \<and> vkGetPhysicalDeviceSurfaceSupportKHR drv dev p (surface app) \<noteq> 0 \<and>
        (\<forall>j<m. p < j \<longrightarrow> vkGetPhysicalDeviceSurfaceSupportKHR drv dev j (surface app) = 0))"
  using findQueueFamilies_loop_scan
    [of "\<lparr>graphicsFamily = None, presentFamily = None\<rparr>"
        "vkGetPhysicalDeviceQueueFamilyProperties drv dev"
        "\<lambda>i. vkGetPhysicalDeviceSurfaceSupportKHR drv dev i (surface app)" 0]
  by (simp add: findQueueFamilies_def isComplete_def)

text \<open>
  C1 as it is written fails on device 2 of the example machine: family 0 is
  graphics-capable, so the smallest graphics-capable index is 0, but family 1 is
  graphics-capable too and is scanned before the first presenting family 2, so the
  graphics index returned is 1.
\<close>

theorem findQueueFamilies_first_match_counterexample:
  "queueFlags (vkGetPhysicalDeviceQueueFamilyProperties example_driver 2 ! 0)
     AND VK_QUEUE_GRAPHICS_BIT \<noteq> 0 \<and>
   graphicsFamily (findQueueFamilies example_driver example_app 2) = Some 1"
  by (simp add: example_findQueueFamilies_2) (simp add: example_driver_def VK_QUEUE_GRAPHICS_BIT_def)

text \<open>
  The amended C1 on device 2 of the example machine: three families, all scanned, the
  last graphics-capable one is 1 and the last presenting one is 2.
\<close>

theorem findQueueFamilies_last_match_witness:
  "length (vkGetPhysicalDeviceQueueFamilyProperties example_driver 2) = 3 \<and>
   queueFlags (vkGetPhysicalDeviceQueueFamilyProperties example_driver 2 ! 1)
     AND VK_QUEUE_GRAPHICS_BIT \<noteq> 0 \<and>
   queueFlags (vkGetPhysicalDeviceQueueFamilyProperties example_driver 2 ! 2)
     AND VK_QUEUE_GRAPHICS_BIT = 0 \<and>
   vkGetPhysicalDeviceSurfaceSupportKHR example_driver 2 2 (surface example_app) \<noteq> 0 \<and>
   graphicsFamily (findQueueFamilies example_driver example_app 2) = Some 1 \<and>
   presentFamily (findQueueFamilies example_driver example_app 2) = Some 2"
proof -
  have fams: "length (vkGetPhysicalDeviceQueueFamilyProperties example_driver 2) = 3"
    and g1: "queueFlags (vkGetPhysicalDeviceQueueFamilyProperties example_driver 2 ! 1)
       AND VK_QUEUE_GRAPHICS_BIT \<noteq> 0"
    and g2: "queueFlags (vkGetPhysicalDeviceQueueFamilyProperties example_driver 2 ! 2)
       AND VK_QUEUE_GRAPHICS_BIT = 0"
    and p0: "vkGetPhysicalDeviceSurfaceSupportKHR example_driver 2 0 (surface example_app) = 0"
    and p1: "vkGetPhysicalDeviceSurfaceSupportKHR example_driver 2 1 (surface example_app) = 0"
    and p2: "vkGetPhysicalDeviceSurfaceSupportKHR example_driver 2 2 (surface example_app) \<noteq> 0"
    by (simp_all add: example_driver_def VK_QUEUE_GRAPHICS_BIT_def)
  from findQueueFamilies_last_match [of example_driver 2 example_app]
  obtain m where m: "m \<le> length (vkGetPhysicalDeviceQueueFamilyProperties example_driver 2)"
    and stop: "m < length (vkGetPhysicalDeviceQueueFamilyProperties example_driver 2) \<longrightarrow>
        (\<exists>a<m. graphicsCapable (vkGetPhysicalDeviceQueueFamilyProperties example_driver 2 ! a)) \<and>
        (\<exists>b<m. vkGetPhysicalDeviceSurfaceSupportKHR example_driver 2 b (surface example_app) \<noteq> 0)"
    and G: "\<forall>g. graphicsFamily (findQueueFamilies example_driver example_app 2) = Some g \<longleftrightarrow>
        g < m \<and> graphicsCapable (vkGetPhysicalDeviceQueueFamilyProperties example_driver 2 ! g) \<and>
        (\<forall>j<m. g < j \<longrightarrow>
           \<not> graphicsCapable (vkGetPhysicalDeviceQueueFamilyProperties example_driver 2 ! j))"
    and P: "\<forall>p. presentFamily (findQueueFamilies example_driver example_app 2) = Some p \<longleftrightarrow>
        p < m \<and> vkGetPhysicalDeviceSurfaceSupportKHR example_driver 2 p (surface example_app) \<noteq> 0 \<and>
        (\<forall>j<m. p < j \<longrightarrow>
           vkGetPhysicalDeviceSurfaceSupportKHR example_driver 2 j (surface example_app) = 0)"
    by blast
  have "m = 3"
  proof (rule ccontr)
    assume "m \<noteq> 3"
    with m fams have less: "m < 3" by simp
    with stop fams obtain b where b: "b < m"
      and sup: "vkGetPhysicalDeviceSurfaceSupportKHR example_driver 2 b (surface example_app) \<noteq> 0"
      by auto
    from b less have "b = 0 \<or> b = 1" by arith
    with sup p0 p1 show False by blast
  qed
  have last_g: "\<not> graphicsCapable (vkGetPhysicalDeviceQueueFamilyProperties example_driver 2 ! j)"
    if "j < 3" "1 < j" for j
  proof -
    from that have "j = 2" by arith
    with g2 show ?thesis by simp
  qed
  have "graphicsFamily (findQueueFamilies example_driver example_app 2) = Some 1 \<longleftrightarrow>
        1 < m \<and> graphicsCapable (vkGetPhysicalDeviceQueueFamilyProperties example_driver 2 ! 1) \<and>
        (\<forall>j<m. 1 < j \<longrightarrow>
           \<not> graphicsCapable (vkGetPhysicalDeviceQueueFamilyProperties example_driver 2 ! j))"
    using G by blast
  with g1 last_g \<open>m = 3\<close>
  have rg: "graphicsFamily (findQueueFamilies example_driver example_app 2) = Some 1"
    by simp
  have "presentFamily (findQueueFamilies example_driver example_app 2) = Some 2 \<longleftrightarrow>
        2 < m \<and> vkGetPhysicalDeviceSurfaceSupportKHR example_driver 2 2 (surface example_app) \<noteq> 0 \<and>
        (\<forall>j<m. 2 < j \<longrightarrow>
           vkGetPhysicalDeviceSurfaceSupportKHR example_driver 2 j (surface example_app) = 0)"
    using P by blast
  with p2 \<open>m = 3\<close>
  have rp: "presentFamily (findQueueFamilies example_driver example_app 2) = Some 2"
    by simp
  from fams g1 g2 p2 rg rp show ?thesis
    by (intro conjI)
qed

section \<open>Properties of device selection\<close>

lemma fold_erase:
  "fold (\<lambda>extension required. required - {extensionName extension}) xs S =
     S - extensionName ` set xs"
  by (induction xs arbitrary: S) auto

lemma checkDeviceExtensionSupport_iff:
  "checkDeviceExtensionSupport drv dev \<longleftrightarrow>
     set deviceExtensions - extensionName ` set (vkEnumerateDeviceExtensionProperties drv dev) = {}"
  by (simp add: checkDeviceExtensionSupport_def Let_def fold_erase)

text \<open>
  C2. A device whose indices lack the graphics or the present family is not suitable,
  whatever its extensions, formats and present modes. A device is suitable exactly when
  its indices are complete, the required extension names minus the names the device
  reports leave nothing (every required name is reported), the surface-format list
  is non-empty and the present-mode list is non-empty.
\<close>

theorem isDeviceSuitable_iff:
  "(graphicsFamily (findQueueFamilies drv app dev) = None \<or>
    presentFamily (findQueueFamilies drv app dev) = None \<longrightarrow>
      \<not> isDeviceSuitable drv app dev) \<and>
   (isDeviceSuitable drv app dev \<longleftrightarrow>
      isComplete (findQueueFamilies drv app dev) \<and>
      set deviceExtensions - extensionName ` set (vkEnumerateDeviceExtensionProperties drv dev) = {} \<and>
      (\<forall>name \<in> set deviceExtensions.
         name \<in> extensionName ` set (vkEnumerateDeviceExtensionProperties drv dev)) \<and>
      vkGetPhysicalDeviceSurfaceFormatsKHR drv dev (surface app) \<noteq> [] \<and>
      vkGetPhysicalDeviceSurfacePresentModesKHR drv dev (surface app) \<noteq> [])"
  by (auto simp: isDeviceSuitable_def Let_def checkDeviceExtensionSupport_iff
      querySwapChainSupport_def isComplete_def)

text \<open>
  C2 on the example machine: device 1 has no present family and is not suitable,
  although it reports the extension and has formats and present modes; device 2 meets
  all three conditions and is suitable.
\<close>

theorem isDeviceSuitable_iff_witness:
  "presentFamily (findQueueFamilies example_driver example_app 1) = None \<and>
   set deviceExtensions
     - extensionName ` set (vkEnumerateDeviceExtensionProperties example_driver 1) = {} \<and>
   vkGetPhysicalDeviceSurfaceFormatsKHR example_driver 1 (surface example_app) \<noteq> [] \<and>
   vkGetPhysicalDeviceSurfacePresentModesKHR example_driver 1 (surface example_app) \<noteq> [] \<and>
   isDeviceSuitable example_driver example_app 1 = False \<and>
   isComplete (findQueueFamilies example_driver example_app 2) \<and>
   isDeviceSuitable example_driver example_app 2"
proof -
  have ext: "set deviceExtensions
      - extensionName ` set (vkEnumerateDeviceExtensionProperties example_driver d) = {}" for d
    by (simp add: example_driver_def deviceExtensions_def VK_KHR_SWAPCHAIN_EXTENSION_NAME_def)
  have lists: "vkGetPhysicalDeviceSurfaceFormatsKHR example_driver d (surface example_app) \<noteq> []"
    "vkGetPhysicalDeviceSurfacePresentModesKHR example_driver d (surface example_app) \<noteq> []" for d
    by (simp_all add: example_driver_def)
  have p1: "presentFamily (findQueueFamilies example_driver example_app 1) = None"
    by (simp add: example_findQueueFamilies_1)
  have c2: "isComplete (findQueueFamilies example_driver example_app 2)"
    by (simp add: example_findQueueFamilies_2 isComplete_def)
  from ext [of 2] have all2: "\<forall>name \<in> set deviceExtensions.
      name \<in> extensionName ` set (vkEnumerateDeviceExtensionProperties example_driver 2)"
    by blast
  from isDeviceSuitable_iff [of example_driver example_app 1] p1
  have "isDeviceSuitable example_driver example_app 1 = False"
    by blast
  moreover from isDeviceSuitable_iff [of example_driver example_app 2] c2 ext [of 2] all2
    lists [of 2]
  have "isDeviceSuitable example_driver example_app 2"
    by blast
  ultimately show ?thesis
    using p1 ext [of 1] lists [of 1] c2 by (intro conjI)
qed

lemma isDeviceSuitable_enumeration:
  "isDeviceSuitable (drv\<lparr>vkEnumeratePhysicalDevices := ds\<rparr>) app dev = isDeviceSuitable drv app dev"
  by (simp add: isDeviceSuitable_def findQueueFamilies_def checkDeviceExtensionSupport_def
      querySwapChainSupport_def)

lemma pickPhysicalDevice_loop_find:
  "pickPhysicalDevice_loop drv app ds =
     (case find (isDeviceSuitable drv app) ds of
        None \<Rightarrow> app
      | Some d \<Rightarrow> app\<lparr>physicalDevice := d\<rparr>)"
  by (induction ds) auto

text \<open>
  C3. \<^verbatim>\<open>pickPhysicalDevice\<close> runs on an application whose \<^verbatim>\<open>physicalDevice\<close> member is
  still the null handle it is initialised with (line 111; this function is its only
  writer), and the driver enumerates no null handle. It then selects the first device, in
  enumeration order, that passes \<^verbatim>\<open>isDeviceSuitable\<close>: the device at position \<open>i\<close> when
  it passes and none before it does, with no ranking among the devices that pass. It
  fails with the spec's \<^verbatim>\<open>NoSuitableDevice\<close> (a \<^verbatim>\<open>std::runtime_error\<close>, which nothing
  between the throw and \<^verbatim>\<open>main\<close> catches) when the enumeration is empty and when no
  device passes. Of two devices, the first without a present family and the second
  suitable, the second is selected.
\<close>

theorem pickPhysicalDevice_first_suitable:
  assumes "physicalDevice app = VK_NULL_HANDLE"
    and "VK_NULL_HANDLE \<notin> set (vkEnumeratePhysicalDevices drv)"
  shows
    "(\<forall>i<length (vkEnumeratePhysicalDevices drv).
        isDeviceSuitable drv app (vkEnumeratePhysicalDevices drv ! i) \<and>
        (\<forall>j<i. \<not> isDeviceSuitable drv app (vkEnumeratePhysicalDevices drv ! j)) \<longrightarrow>
        pickPhysicalDevice drv app = Inr (app\<lparr>physicalDevice := vkEnumeratePhysicalDevices drv ! i\<rparr>)) \<and>
     (vkEnumeratePhysicalDevices drv = [] \<longrightarrow>
        pickPhysicalDevice drv app = Inl (runtime_error ''failed to find GPUs with Vulkan support!'')) \<and>
     (vkEnumeratePhysicalDevices drv \<noteq> [] \<and>
      (\<forall>d \<in> set (vkEnumeratePhysicalDevices drv). \<not> isDeviceSuitable drv app d) \<longrightarrow>
        pickPhysicalDevice drv app = Inl (runtime_error ''failed to find a suitable GPU!'')) \<and>
     (\<forall>d1 d2. vkEnumeratePhysicalDevices drv = [d1, d2] \<and>
        presentFamily (findQueueFamilies drv app d1) = None \<and> isDeviceSuitable drv app d2 \<longrightarrow>
        pickPhysicalDevice drv app = Inr (app\<lparr>physicalDevice := d2\<rparr>))"
proof (intro conjI allI impI)
  fix i
  assume i: "i < length (vkEnumeratePhysicalDevices drv)"
    and first: "isDeviceSuitable drv app (vkEnumeratePhysicalDevices drv ! i) \<and>
        (\<forall>j<i. \<not> isDeviceSuitable drv app (vkEnumeratePhysicalDevices drv ! j))"
  then have "find (isDeviceSuitable drv app) (vkEnumeratePhysicalDevices drv) =
      Some (vkEnumeratePhysicalDevices drv ! i)"
    by (auto simp: find_Some_iff)
  moreover from i assms(2) have "vkEnumeratePhysicalDevices drv ! i \<noteq> VK_NULL_HANDLE"
    by (metis nth_mem)
  ultimately show "pickPhysicalDevice drv app =
      Inr (app\<lparr>physicalDevice := vkEnumeratePhysicalDevices drv ! i\<rparr>)"
    using i by (auto simp: pickPhysicalDevice_def Let_def pickPhysicalDevice_loop_find)
next
  assume "vkEnumeratePhysicalDevices drv = []"
  then show "pickPhysicalDevice drv app =
      Inl (runtime_error ''failed to find GPUs with Vulkan support!'')"
    by (simp add: pickPhysicalDevice_def)
next
  assume "vkEnumeratePhysicalDevices drv \<noteq> [] \<and>
      (\<forall>d \<in> set (vkEnumeratePhysicalDevices drv). \<not> isDeviceSuitable drv app d)"
  then have "vkEnumeratePhysicalDevices drv \<noteq> []"
    and "find (isDeviceSuitable drv app) (vkEnumeratePhysicalDevices drv) = None"
    by (simp_all add: find_None_iff)
  with assms(1) show "pickPhysicalDevice drv app =
      Inl (runtime_error ''failed to find a suitable GPU!'')"
    by (simp add: pickPhysicalDevice_def Let_def pickPhysicalDevice_loop_find)
next
  fix d1 d2
  assume a: "vkEnumeratePhysicalDevices drv = [d1, d2] \<and>
        presentFamily (findQueueFamilies drv app d1) = None \<and> isDeviceSuitable drv app d2"
  then have "\<not> isDeviceSuitable drv app d1"
    by (simp add: isDeviceSuitable_def isComplete_def Let_def)
  moreover from a assms(2) have "d2 \<noteq> VK_NULL_HANDLE"
    by auto
  ultimately show "pickPhysicalDevice drv app = Inr (app\<lparr>physicalDevice := d2\<rparr>)"
    using a by (simp add: pickPhysicalDevice_def Let_def)
qed

text \<open>
  C3 on the example machine, which enumerates device 1 (no present family) and then
  device 2 (suitable): device 2 is selected. With only device 1 enumerated, and with
  nothing enumerated, selection fails.
\<close>

theorem pickPhysicalDevice_first_suitable_witness:
  "physicalDevice example_app = VK_NULL_HANDLE \<and>
   VK_NULL_HANDLE \<notin> set (vkEnumeratePhysicalDevices example_driver) \<and>
   vkEnumeratePhysicalDevices example_driver = [1, 2] \<and>
   presentFamily (findQueueFamilies example_driver example_app 1) = None \<and>
   isDeviceSuitable example_driver example_app 2 \<and>
   pickPhysicalDevice example_driver example_app = Inr (example_app\<lparr>physicalDevice := 2\<rparr>) \<and>
   pickPhysicalDevice (example_driver\<lparr>vkEnumeratePhysicalDevices := []\<rparr>) example_app =
     Inl (runtime_error ''failed to find GPUs with Vulkan support!'') \<and>
   pickPhysicalDevice (example_driver\<lparr>vkEnumeratePhysicalDevices := [1]\<rparr>) example_app =
     Inl (runtime_error ''failed to find a suitable GPU!'')"
proof -
  have h1: "physicalDevice example_app = VK_NULL_HANDLE"
    by (simp add: example_app_def)
  have h2: "VK_NULL_HANDLE \<notin> set (vkEnumeratePhysicalDevices example_driver)"
    by (simp add: example_driver_def VK_NULL_HANDLE_def)
  have h3: "vkEnumeratePhysicalDevices example_driver = [1, 2]"
    by (simp add: example_driver_def)
  have h4: "presentFamily (findQueueFamilies example_driver example_app 1) = None"
    by (simp add: example_findQueueFamilies_1)
  have e2: "VK_NULL_HANDLE \<notin> set (vkEnumeratePhysicalDevices
      (example_driver\<lparr>vkEnumeratePhysicalDevices := []\<rparr>))"
    by simp
  have e3: "VK_NULL_HANDLE \<notin> set (vkEnumeratePhysicalDevices
      (example_driver\<lparr>vkEnumeratePhysicalDevices := [1]\<rparr>))"
    by (simp add: VK_NULL_HANDLE_def)
  have n1: "\<not> isDeviceSuitable (example_driver\<lparr>vkEnumeratePhysicalDevices := [1]\<rparr>) example_app 1"
    using example_isDeviceSuitable_1 by (simp add: isDeviceSuitable_enumeration)
  have "pickPhysicalDevice example_driver example_app = Inr (example_app\<lparr>physicalDevice := 2\<rparr>)"
    using pickPhysicalDevice_first_suitable [OF h1 h2] h3 h4 example_isDeviceSuitable_2
    by blast
  moreover have "pickPhysicalDevice (example_driver\<lparr>vkEnumeratePhysicalDevices := []\<rparr>) example_app =
     Inl (runtime_error ''failed to find GPUs with Vulkan support!'')"
    using pickPhysicalDevice_first_suitable [OF h1 e2] by simp
  moreover have "pickPhysicalDevice (example_driver\<lparr>vkEnumeratePhysicalDevices := [1]\<rparr>) example_app =
     Inl (runtime_error ''failed to find a suitable GPU!'')"
    using pickPhysicalDevice_first_suitable [OF h1 e3] n1 by simp
  ultimately show ?thesis
    using h1 h2 h3 h4 example_isDeviceSuitable_2 by (intro conjI)
qed

section \<open>Properties of image-view creation\<close>

text \<open>
  The loop on a list whose images \<open>pre\<close> are all accepted and whose next image is
  refused: it stops there with the error, the views of \<open>pre\<close> are live and stored at
  positions \<open>k\<close> onwards, and nothing else has changed.
\<close>

lemma createImageViews_loop_abort:
  assumes "\<forall>x \<in> set pre.
      fst (vkCreateImageView_outcome drv (imageViewCreateInfo x (swapChainImageFormat app))) = VK_SUCCESS"
    and "fst (vkCreateImageView_outcome drv (imageViewCreateInfo bad (swapChainImageFormat app)))
      \<noteq> VK_SUCCESS"
    and "k + length pre \<le> length (swapChainImageViews app)"
  shows "createImageViews_loop (pre @ bad # post) k drv app =
     (Inl (runtime_error ''failed to create image views!''),
      drv\<lparr>liveImageViews := liveImageViews drv @
         map (\<lambda>x. snd (vkCreateImageView_outcome drv
                (imageViewCreateInfo x (swapChainImageFormat app)))) pre\<rparr>,
      app\<lparr>swapChainImageViews := take k (swapChainImageViews app) @
         map (\<lambda>x. snd (vkCreateImageView_outcome drv
                (imageViewCreateInfo x (swapChainImageFormat app)))) pre @
         drop (k + length pre) (swapChainImageViews app)\<rparr>)"
  using assms
proof (induction pre arbitrary: k drv app)
  case Nil
  then show ?case
    by (auto simp: vkCreateImageView_def split: prod.splits)
next
  case (Cons x pre)
  obtain v where out:
    "vkCreateImageView_outcome drv (imageViewCreateInfo x (swapChainImageFormat app)) = (VK_SUCCESS, v)"
    using Cons.prems(1)
    by (cases "vkCreateImageView_outcome drv (imageViewCreateInfo x (swapChainImageFormat app))") simp
  define drv' where "drv' = drv\<lparr>liveImageViews := liveImageViews drv @ [v]\<rparr>"
  define app' where "app' = app\<lparr>swapChainImageViews := (swapChainImageViews app)[k := v]\<rparr>"
  have step: "createImageViews_loop ((x # pre) @ bad # post) k drv app =
      createImageViews_loop (pre @ bad # post) (Suc k) drv' app'"
    by (simp add: vkCreateImageView_def out drv'_def app'_def)
  have same: "vkCreateImageView_outcome drv' = vkCreateImageView_outcome drv"
    "swapChainImageFormat app' = swapChainImageFormat app"
    by (simp_all add: drv'_def app'_def)
  have k: "k < length (swapChainImageViews app)"
    using Cons.prems(3) by simp
  have IH: "createImageViews_loop (pre @ bad # post) (Suc k) drv' app' =
     (Inl (runtime_error ''failed to create image views!''),
      drv'\<lparr>liveImageViews := liveImageViews drv' @
         map (\<lambda>x. snd (vkCreateImageView_outcome drv'
                (imageViewCreateInfo x (swapChainImageFormat app')))) pre\<rparr>,
      app'\<lparr>swapChainImageViews := take (Suc k) (swapChainImageViews app') @
         map (\<lambda>x. snd (vkCreateImageView_outcome drv'
                (imageViewCreateInfo x (swapChainImageFormat app')))) pre @
         drop (Suc k + length pre) (swapChainImageViews app')\<rparr>)"
    using Cons.prems by (intro Cons.IH) (simp_all add: same, simp add: app'_def)
  have tk: "take (Suc k) (swapChainImageViews app') = take k (swapChainImageViews app) @ [v]"
    using k by (simp add: app'_def take_Suc_conv_app_nth)
  have dr: "drop (Suc k + length pre) (swapChainImageViews app') =
      drop (k + length (x # pre)) (swapChainImageViews app)"
    by (simp add: app'_def)
  show ?case
    unfolding step IH same tk dr
    by (simp add: drv'_def app'_def out)
qed

text \<open>
  C9. If the driver refuses the view of the image at position \<open>i\<close>, having accepted
  those of the images before it, \<^verbatim>\<open>createImageViews\<close> ends at once with the error
  \<^verbatim>\<open>failed to create image views!\<close> (the spec's \<^verbatim>\<open>ImageViewCreationFailure\<close>), not with a
  partial success. At that moment the views created for the images \<open>0..i-1\<close> are still
  live in the driver, after everything that was live before, and they fill the first
  \<open>i\<close> slots of \<^verbatim>\<open>swapChainImageViews\<close>: the failing operation destroys none of them.
\<close>

theorem createImageViews_aborts_without_cleanup:
  assumes "i < length (swapChainImages app)"
    and "fst (vkCreateImageView_outcome drv
           (imageViewCreateInfo (swapChainImages app ! i) (swapChainImageFormat app))) \<noteq> VK_SUCCESS"
    and "\<forall>j<i. fst (vkCreateImageView_outcome drv
           (imageViewCreateInfo (swapChainImages app ! j) (swapChainImageFormat app))) = VK_SUCCESS"
  shows "createImageViews drv app =
     (Inl (runtime_error ''failed to create image views!''),
      drv\<lparr>liveImageViews := liveImageViews drv @
         map (\<lambda>img. snd (vkCreateImageView_outcome drv
                (imageViewCreateInfo img (swapChainImageFormat app))))
           (take i (swapChainImages app))\<rparr>,
      app\<lparr>swapChainImageViews :=
         map (\<lambda>img. snd (vkCreateImageView_outcome drv
                (imageViewCreateInfo img (swapChainImageFormat app))))
           (take i (swapChainImages app)) @
         drop i (resize (length (swapChainImages app)) (swapChainImageViews app))\<rparr>)"
proof -
  define app1 where "app1 = app\<lparr>swapChainImageViews :=
      resize (length (swapChainImages app)) (swapChainImageViews app)\<rparr>"
  have len: "length (swapChainImageViews app1) = length (swapChainImages app)"
    by (simp add: app1_def resize_def)
  have split: "swapChainImages app =
      take i (swapChainImages app) @ swapChainImages app ! i # drop (Suc i) (swapChainImages app)"
    using assms(1) by (rule id_take_nth_drop)
  have pre: "\<forall>x \<in> set (take i (swapChainImages app)).
      fst (vkCreateImageView_outcome drv (imageViewCreateInfo x (swapChainImageFormat app1))) = VK_SUCCESS"
  proof
    fix x assume "x \<in> set (take i (swapChainImages app))"
    then obtain j where "j < i" "j < length (swapChainImages app)" "x = swapChainImages app ! j"
      using assms(1) by (auto simp: in_set_conv_nth)
    with assms(3) show "fst (vkCreateImageView_outcome drv
        (imageViewCreateInfo x (swapChainImageFormat app1))) = VK_SUCCESS"
      by (simp add: app1_def)
  qed
  have bad: "fst (vkCreateImageView_outcome drv
      (imageViewCreateInfo (swapChainImages app ! i) (swapChainImageFormat app1))) \<noteq> VK_SUCCESS"
    using assms(2) by (simp add: app1_def)
  have room: "0 + length (take i (swapChainImages app)) \<le> length (swapChainImageViews app1)"
    using assms(1) len by simp
  have "createImageViews drv app = createImageViews_loop
      (take i (swapChainImages app) @ swapChainImages app ! i # drop (Suc i) (swapChainImages app))
      0 drv app1"
    using split by (simp add: createImageViews_def app1_def Let_def)
  also note createImageViews_loop_abort [OF pre bad room]
  finally show ?thesis
    using assms(1) by (simp add: app1_def min_def)
qed

text \<open>
  C9 on the example machine with the swapchain images 33, 34, 35, of which the driver
  refuses 35: the error is raised, the views 65 and 66 of the first two images stay
  live and stored, and the third slot holds the null handle.
\<close>

theorem createImageViews_aborts_without_cleanup_witness:
  "createImageViews example_driver
     (example_app\<lparr>swapChainImages := [33, 34, 35], swapChainImageFormat := 50\<rparr>) =
     (Inl (runtime_error ''failed to create image views!''),
      example_driver\<lparr>liveImageViews := [65, 66]\<rparr>,
      example_app\<lparr>swapChainImages := [33, 34, 35], swapChainImageFormat := 50,
                   swapChainImageViews := [65, 66, VK_NULL_HANDLE]\<rparr>)"
proof -
  let ?app = "example_app\<lparr>swapChainImages := [33, 34, 35], swapChainImageFormat := 50\<rparr>"
  have h1: "2 < length (swapChainImages ?app)"
    by simp
  have h2: "fst (vkCreateImageView_outcome example_driver
      (imageViewCreateInfo (swapChainImages ?app ! 2) (swapChainImageFormat ?app))) \<noteq> VK_SUCCESS"
    by (simp add: example_driver_def imageViewCreateInfo_def VK_SUCCESS_def)
  have h3: "\<forall>j<2. fst (vkCreateImageView_outcome example_driver
      (imageViewCreateInfo (swapChainImages ?app ! j) (swapChainImageFormat ?app))) = VK_SUCCESS"
    by (simp add: example_driver_def imageViewCreateInfo_def VK_SUCCESS_def less_2_cases_iff)
  have live: "liveImageViews example_driver = []"
    and views: "swapChainImageViews example_app = []"
    by (simp_all add: example_driver_def example_app_def)
  have created: "map (\<lambda>img. snd (vkCreateImageView_outcome example_driver
      (imageViewCreateInfo img (swapChainImageFormat ?app)))) (take 2 (swapChainImages ?app)) = [65, 66]"
    by (simp add: example_driver_def imageViewCreateInfo_def)
  have rest: "drop 2 (resize (length (swapChainImages ?app)) (swapChainImageViews ?app)) =
      [VK_NULL_HANDLE]"
    by (simp add: views resize_def numeral_3_eq_3)
  show ?thesis
    unfolding createImageViews_aborts_without_cleanup [OF h1 h2 h3] created rest
    by (simp add: live)
qed

end
